theory Spec2Isabelle
  imports Main
begin

section \<open>Python values, exceptions and string helpers\<close>

text \<open>
  The marketing-site loaders of \<^verbatim>\<open>data_loaders/marketing_site.py\<close> work on the
  objects that \<^verbatim>\<open>response.json()\<close> returns: \<^verbatim>\<open>None\<close>, booleans, integers, strings,
  lists and dictionaries. A dictionary is an association list with one entry for a
  key, read with \<open>map_of\<close>; strings are byte strings (UTF-8). Floating-point numbers
  are not modelled. A definition has the name of the source function it models,
  without a leading underscore; \<open>process_node\<close> is the course loader's and
  \<open>xseries_process_node\<close> the XSeries loader's.
\<close>

datatype json =
    JNull
  | JBool bool
  | JNum int
  | JStr string
  | JArr "json list"
  | JObj "(string \<times> json) list"

type_synonym dict = "(string \<times> json) list"

text \<open>The exception classes the loaders can meet. \<open>Exception\<close> is the plain
  \<^verbatim>\<open>Exception(msg)\<close> that \<^verbatim>\<open>_check_status_code\<close> raises.\<close>

datatype exn =
    KeyError
  | TypeError
  | ValueError
  | AttributeError
  | IndexError
  | UnboundLocalError
  | MultipleObjectsReturned
  | Exception

text \<open>Truth value of an object, as \<^verbatim>\<open>if x:\<close>, \<^verbatim>\<open>x or y\<close> and \<^verbatim>\<open>bool(x)\<close> test it.\<close>

fun truthy :: "json \<Rightarrow> bool" where
  "truthy JNull = False"
| "truthy (JBool b) = b"
| "truthy (JNum n) = (n \<noteq> 0)"
| "truthy (JStr s) = (s \<noteq> [])"
| "truthy (JArr xs) = (xs \<noteq> [])"
| "truthy (JObj kvs) = (kvs \<noteq> [])"

text \<open>\<^verbatim>\<open>x or y\<close>\<close>

definition py_or :: "json \<Rightarrow> json \<Rightarrow> json" where
  "py_or x y = (if truthy x then x else y)"

text \<open>\<^verbatim>\<open>d[k]\<close> on a dictionary: \<^verbatim>\<open>KeyError\<close> for a missing key.\<close>

definition dict_item :: "dict \<Rightarrow> string \<Rightarrow> exn + json" where
  "dict_item d k = (case map_of d k of None \<Rightarrow> Inl KeyError | Some v \<Rightarrow> Inr v)"

text \<open>\<^verbatim>\<open>d.get(k, default)\<close> and \<^verbatim>\<open>d.get(k)\<close> (default \<^verbatim>\<open>None\<close>) on a dictionary.\<close>

definition dict_get_default :: "dict \<Rightarrow> string \<Rightarrow> json \<Rightarrow> json" where
  "dict_get_default d k dflt = (case map_of d k of None \<Rightarrow> dflt | Some v \<Rightarrow> v)"

definition dict_get :: "dict \<Rightarrow> string \<Rightarrow> json" where
  "dict_get d k = dict_get_default d k JNull"

text \<open>\<^verbatim>\<open>v[k]\<close> with a string key on any object: only a dictionary can be subscripted
  by a string, every other object raises \<^verbatim>\<open>TypeError\<close>.\<close>

definition py_getitem :: "json \<Rightarrow> string \<Rightarrow> exn + json" where
  "py_getitem v k = (case v of JObj d \<Rightarrow> dict_item d k | _ \<Rightarrow> Inl TypeError)"

text \<open>\<^verbatim>\<open>v.get(k)\<close> on any object: only a dictionary has the method.\<close>

definition py_get :: "json \<Rightarrow> string \<Rightarrow> exn + json" where
  "py_get v k = (case v of JObj d \<Rightarrow> Inr (dict_get d k) | _ \<Rightarrow> Inl AttributeError)"

text \<open>\<^verbatim>\<open>d[k] = v\<close> on a dictionary.\<close>

definition dict_set :: "dict \<Rightarrow> string \<Rightarrow> json \<Rightarrow> dict" where
  "dict_set d k v =
     (if k \<in> fst ` set d then map (\<lambda>(k', v'). if k' = k then (k', v) else (k', v')) d
      else d @ [(k, v)])"

text \<open>White space as \<^verbatim>\<open>str.strip()\<close> sees it, on ASCII: tab, line feed, vertical tab,
  form feed, carriage return, the separators \<open>0x1C\<close> to \<open>0x1F\<close>, and space.\<close>

definition is_space :: "char \<Rightarrow> bool" where
  "is_space c = (let n = (of_char c :: nat) in (9 \<le> n \<and> n \<le> 13) \<or> (28 \<le> n \<and> n \<le> 32))"

definition py_strip :: "string \<Rightarrow> string" where
  "py_strip s = rev (dropWhile is_space (rev (dropWhile is_space s)))"

text \<open>\<^verbatim>\<open>s.lstrip(chars)\<close>: drops leading characters as long as they occur in \<open>chars\<close>;
  the argument is a set of characters, not a prefix.\<close>

definition py_lstrip :: "string \<Rightarrow> string \<Rightarrow> string" where
  "py_lstrip chars s = dropWhile (\<lambda>c. c \<in> set chars) s"

text \<open>\<^verbatim>\<open>s.split(sep)\<close> for a one-character separator: never the empty list.\<close>

fun split_on :: "char \<Rightarrow> string \<Rightarrow> string list" where
  "split_on sep [] = [[]]"
| "split_on sep (c # cs) =
     (if c = sep then [] # split_on sep cs
      else (case split_on sep cs of
              [] \<Rightarrow> [[c]]
            | w # ws \<Rightarrow> (c # w) # ws))"

text \<open>\<^verbatim>\<open>int(s)\<close> on a string: surrounding white space, an optional sign, then one or
  more decimal digits (digit-group underscores of later Python versions are not
  modelled).\<close>

definition is_digit :: "char \<Rightarrow> bool" where
  "is_digit c = (let n = (of_char c :: nat) in 48 \<le> n \<and> n \<le> 57)"

definition digits_value :: "string \<Rightarrow> int" where
  "digits_value ds = foldl (\<lambda>a c. 10 * a + (int (of_char c) - 48)) 0 ds"

definition int_of_str :: "string \<Rightarrow> int option" where
  "int_of_str s =
     (let t = py_strip s;
          (neg, ds) = (case t of
                         c # r \<Rightarrow> if c = CHR ''-'' then (True, r)
                                  else if c = CHR ''+'' then (False, r) else (False, t)
                       | [] \<Rightarrow> (False, t))
      in if ds \<noteq> [] \<and> list_all is_digit ds
         then Some (if neg then - digits_value ds else digits_value ds)
         else None)"

text \<open>\<^verbatim>\<open>int(v)\<close> on any object.\<close>

definition py_int :: "json \<Rightarrow> exn + int" where
  "py_int v =
     (case v of
        JNum n \<Rightarrow> Inr n
      | JBool b \<Rightarrow> Inr (if b then 1 else 0)
      | JStr s \<Rightarrow> (case int_of_str s of None \<Rightarrow> Inl ValueError | Some n \<Rightarrow> Inr n)
      | _ \<Rightarrow> Inl TypeError)"

text \<open>Lower case on ASCII, for the ORM's \<^verbatim>\<open>__iexact\<close> lookups.\<close>

definition lower_char :: "char \<Rightarrow> char" where
  "lower_char c = (let n = (of_char c :: nat) in if 65 \<le> n \<and> n \<le> 90 then char_of (n + 32) else c)"

definition iexact :: "string \<Rightarrow> string \<Rightarrow> bool" where
  "iexact a b = (map lower_char a = map lower_char b)"

text \<open>Iterating over an object (\<^verbatim>\<open>for x in v\<close>): a list gives its elements, a
  dictionary its keys, a string its characters; the other objects are not iterable.\<close>

definition py_iter :: "json \<Rightarrow> exn + json list" where
  "py_iter v =
     (case v of
        JArr xs \<Rightarrow> Inr xs
      | JObj d \<Rightarrow> Inr (map (\<lambda>kv. JStr (fst kv)) d)
      | JStr s \<Rightarrow> Inr (map (\<lambda>c. JStr [c]) s)
      | _ \<Rightarrow> Inl TypeError)"

text \<open>\<^verbatim>\<open>v.strip()\<close> and \<^verbatim>\<open>v.split('/')[-1]\<close>: string methods, absent on other objects.\<close>

definition str_strip :: "json \<Rightarrow> exn + string" where
  "str_strip v = (case v of JStr s \<Rightarrow> Inr (py_strip s) | _ \<Rightarrow> Inl AttributeError)"

definition last_path_segment :: "json \<Rightarrow> exn + string" where
  "last_path_segment v =
     (case v of JStr s \<Rightarrow> Inr (last (split_on (CHR ''/'') s)) | _ \<Rightarrow> Inl AttributeError)"

subsection \<open>Sequencing of fallible and of stateful steps\<close>

text \<open>A raised exception ends the computation: the steps after it do not run.\<close>

fun bindE :: "exn + 'a \<Rightarrow> ('a \<Rightarrow> exn + 'b) \<Rightarrow> exn + 'b" where
  "bindE (Inl e) f = Inl e"
| "bindE (Inr x) f = f x"

fun mapE :: "('a \<Rightarrow> exn + 'b) \<Rightarrow> 'a list \<Rightarrow> exn + 'b list" where
  "mapE f [] = Inr []"
| "mapE f (x # xs) = bindE (f x) (\<lambda>y. bindE (mapE f xs) (\<lambda>ys. Inr (y # ys)))"

section \<open>The catalog\<close>

text \<open>
  The tables the loaders read and write through the ORM. A row is identified by its
  position in its table (its primary key): no loader deletes a row. A many-to-many
  relation is the list of the related rows' positions. Only the columns that the
  modelled loaders touch are kept. Beside the tables the catalog records the calls of
  the logger (\<open>log\<close>) and the pages requested from the site (\<open>requests\<close>), in order.
\<close>

datatype CourseRunStatus = Published | Unpublished

datatype CourseRunPacing = Self | Instructor

record course =
  course_key :: string
  course_partner :: nat
  course_title :: string
  course_number :: json
  course_full_description :: string
  course_video :: "nat option"
  course_short_description :: string
  course_level_type :: "nat option"
  course_card_image_url :: json
  course_subjects :: "nat list"
  course_authoring_organizations :: "nat list"

record course_run =
  run_key :: json
  run_course :: nat
  run_uuid :: json
  run_title_override :: string
  run_language :: "nat option"
  run_slug :: string
  run_card_image_url :: json
  run_status :: CourseRunStatus
  run_start :: "int option"
  run_pacing_type :: CourseRunPacing
  run_hidden :: bool
  run_weeks_to_complete :: "int option"
  run_mobile_available :: json
  run_staff :: "nat list"
  run_transcript_languages :: "nat list"

record organization =
  organization_uuid :: string
  organization_key :: string

record subject =
  subject_uuid :: string
  subject_slug :: string

record person =
  person_uuid :: string
  person_slug :: string

record language_tag =
  language_code :: string

record program =
  program_marketing_slug :: string
  program_partner :: nat
  program_subtitle :: json
  program_card_image_url :: json
  program_overview :: string
  program_video :: "nat option"
  program_credit_redemption_overview :: json

text \<open>A call of the module's \<^verbatim>\<open>logger\<close>: the format string and its arguments.\<close>

datatype log_record =
    Log_info string "json list"
  | Log_error string "json list"
  | Log_exception string "json list"

record catalog =
  courses :: "course list"
  course_runs :: "course_run list"
  organizations :: "organization list"
  subjects :: "subject list"
  people :: "person list"
  language_tags :: "language_tag list"
  level_types :: "json list"
  programs :: "program list"
  log :: "log_record list"
  requests :: "int list"

text \<open>A stateful step returns its result, or the exception it raised, and the
  catalog as it left it: writes made before an exception stay (no transaction wraps
  a node).\<close>

type_synonym 'a step = "catalog \<Rightarrow> (exn + 'a) \<times> catalog"

definition liftE :: "exn + 'a \<Rightarrow> 'a step" where
  "liftE r st = (r, st)"

definition bindS :: "'a step \<Rightarrow> ('a \<Rightarrow> 'b step) \<Rightarrow> 'b step" where
  "bindS m f st = (case m st of (Inl e, st') \<Rightarrow> (Inl e, st') | (Inr x, st') \<Rightarrow> f x st')"

definition logger :: "log_record \<Rightarrow> unit step" where
  "logger r st = (Inr (), st\<lparr>log := log st @ [r]\<rparr>)"

text \<open>The positions of the rows that a query's condition selects, in table order.\<close>

definition matching :: "('a \<Rightarrow> bool) \<Rightarrow> 'a list \<Rightarrow> nat list" where
  "matching P rows = filter (\<lambda>i. P (rows ! i)) [0..<length rows]"

section \<open>The loaders\<close>

text \<open>
  What a loader object carries. \<open>partner\<close> and \<open>is_threadsafe\<close> are its attributes.
  The other fields stand for code that the module calls and does not contain:
  \<open>clean_strings\<close>, \<open>clean_html\<close>, \<open>get_or_create_video\<close> and
  \<open>get_course_key_from_course_run_key\<close> are methods of the base class
  \<^verbatim>\<open>AbstractDataLoader\<close>, \<open>CourseKey_from_string\<close> is \<^verbatim>\<open>CourseKey.from_string\<close> of the
  \<^verbatim>\<open>opaque_keys\<close> package, and \<open>api_client_get\<close> is the HTTP \<^verbatim>\<open>GET\<close> of the logged-in
  session for a page number (the \<^verbatim>\<open>_request\<close> method builds the URL from the page).
  Nothing is assumed about them. A video is referred to by its primary key.
\<close>

record response =
  status_code :: int
  response_url :: string
  response_content :: string
  response_json :: "exn + json"

record loader =
  partner :: nat
  is_threadsafe :: bool
  clean_strings :: "json \<Rightarrow> exn + dict"
  clean_html :: "json \<Rightarrow> exn + string"
  get_or_create_video :: "json \<Rightarrow> json \<Rightarrow> exn + nat option"
  CourseKey_from_string :: "json \<Rightarrow> exn + string"
  get_course_key_from_course_run_key :: "string \<Rightarrow> string"
  api_client_get :: "int \<Rightarrow> exn + response"

subsection \<open>AbstractMarketingSiteDataLoader\<close>

text \<open>\<^verbatim>\<open>_request\<close>: one \<^verbatim>\<open>GET\<close> of \<^verbatim>\<open>node.json\<close> for a page; the catalog's \<open>requests\<close>
  records the pages asked for.\<close>

definition request :: "loader \<Rightarrow> int \<Rightarrow> response step" where
  "request self page st = (api_client_get self page, st\<lparr>requests := requests st @ [page]\<rparr>)"

text \<open>\<^verbatim>\<open>_check_status_code\<close>\<close>

definition check_status_code :: "response \<Rightarrow> unit step" where
  "check_status_code response =
     (if status_code response \<noteq> 200
      then bindS (logger (Log_error
                    (''Failed to retrieve data from {url}'' @ [CHR 0x0A] @
                     ''Status Code: {status}'' @ [CHR 0x0A] @ ''Body: {body}'')
                    [JStr (response_url response), JNum (status_code response),
                     JStr (response_content response)]))
             (\<lambda>_. liftE (Inl Exception))
      else liftE (Inr ()))"

text \<open>\<^verbatim>\<open>urlparse(url).query\<close>: what stands between the first \<open>?\<close> and the first
  \<open>#\<close>. An object that is not a string is decoded first: a false one gives the empty
  URL, a true one has no \<^verbatim>\<open>decode\<close> method.\<close>

definition urlparse_query :: "json \<Rightarrow> exn + string" where
  "urlparse_query url =
     (case url of
        JStr s \<Rightarrow>
          Inr (case dropWhile (\<lambda>c. c \<noteq> CHR ''?'') (takeWhile (\<lambda>c. c \<noteq> CHR ''#'') s) of
                 [] \<Rightarrow> []
               | _ # query \<Rightarrow> query)
      | _ \<Rightarrow> if truthy url then Inl AttributeError else Inr [])"

text \<open>\<^verbatim>\<open>unquote\<close>: a \<open>%\<close> with two hexadecimal digits is the byte they name (the
  replacement of byte sequences that are not UTF-8 is not modelled).\<close>

definition hex_value :: "char \<Rightarrow> nat option" where
  "hex_value c =
     (let n = (of_char c :: nat) in
      if 48 \<le> n \<and> n \<le> 57 then Some (n - 48)
      else if 65 \<le> n \<and> n \<le> 70 then Some (n - 55)
      else if 97 \<le> n \<and> n \<le> 102 then Some (n - 87)
      else None)"

fun unquote :: "string \<Rightarrow> string" where
  "unquote (c # h1 # h2 # cs) =
     (case (c = CHR ''%'', hex_value h1, hex_value h2) of
        (True, Some a, Some b) \<Rightarrow> char_of (16 * a + b) # unquote cs
      | _ \<Rightarrow> c # unquote (h1 # h2 # cs))"
| "unquote cs = cs"

text \<open>\<^verbatim>\<open>parse_qs\<close> (default arguments): the pairs are separated by \<open>&\<close> or \<open>;\<close>; a pair
  without \<open>=\<close> or with an empty value is skipped; \<open>+\<close> is a space. \<open>parse_qs qs name\<close>
  is the list \<^verbatim>\<open>parse_qs(qs)[name]\<close>, empty when the dictionary has no such key.\<close>

definition parse_qsl :: "string \<Rightarrow> (string \<times> string) list" where
  "parse_qsl qs =
     concat (map (\<lambda>name_value.
               if CHR ''='' \<in> set name_value
               then (let name = takeWhile (\<lambda>c. c \<noteq> CHR ''='') name_value;
                         val = tl (dropWhile (\<lambda>c. c \<noteq> CHR ''='') name_value);
                         plus = map (\<lambda>c. if c = CHR ''+'' then CHR '' '' else c)
                     in if val \<noteq> [] then [(unquote (plus name), unquote (plus val))] else [])
               else [])
            (concat (map (split_on (CHR '';'')) (split_on (CHR ''&'') qs))))"

definition parse_qs :: "string \<Rightarrow> string \<Rightarrow> string list" where
  "parse_qs qs name = map snd (filter (\<lambda>nv. fst nv = name) (parse_qsl qs))"

text \<open>\<^verbatim>\<open>_extract_page\<close>: \<^verbatim>\<open>int(qs['page'][0])\<close>.\<close>

definition extract_page :: "json \<Rightarrow> exn + int" where
  "extract_page url =
     bindE (urlparse_query url) (\<lambda>query.
       (case parse_qs query ''page'' of
          [] \<Rightarrow> Inl KeyError
        | page # _ \<Rightarrow> py_int (JStr page)))"

text \<open>\<^verbatim>\<open>_get_nested_url\<close>\<close>

definition get_nested_url :: "json \<Rightarrow> exn + json" where
  "get_nested_url field = py_get (py_or field (JObj [])) ''url''"

text \<open>\<^verbatim>\<open>_process_response\<close>. The loop over \<^verbatim>\<open>data['list']\<close> is \<open>process_nodes\<close>; its
  argument \<open>url\<close> is the local variable \<^verbatim>\<open>url\<close> of the method, \<open>None\<close> as long as no
  assignment has bound it. The assignment \<^verbatim>\<open>url = node['url']\<close> stands inside the
  \<^verbatim>\<open>try\<close>, so when it raises, the handler reads the variable as the earlier nodes
  left it; reading it unbound raises \<^verbatim>\<open>UnboundLocalError\<close> from within the handler.
  \<open>process_node\<close> is the subclass's method.\<close>

fun process_nodes ::
  "loader \<Rightarrow> (dict \<Rightarrow> 'r step) \<Rightarrow> json option \<Rightarrow> json list \<Rightarrow> unit step" where
  "process_nodes self process_node url [] st = (Inr (), st)"
| "process_nodes self process_node url (node # nodes) st =
     (case py_getitem node ''url'' of
        Inl e \<Rightarrow>
          (case url of
             None \<Rightarrow> (Inl UnboundLocalError, st)
           | Some u \<Rightarrow>
               process_nodes self process_node url nodes
                 (snd (logger (Log_exception ''Failed to load %s.'' [u]) st)))
      | Inr u \<Rightarrow>
          (case bindS (liftE (clean_strings self node)) process_node st of
             (Inl e, st') \<Rightarrow>
               process_nodes self process_node (Some u) nodes
                 (snd (logger (Log_exception ''Failed to load %s.'' [u]) st'))
           | (Inr r, st') \<Rightarrow> process_nodes self process_node (Some u) nodes st'))"

definition process_response :: "loader \<Rightarrow> (dict \<Rightarrow> 'r step) \<Rightarrow> response \<Rightarrow> unit step" where
  "process_response self process_node response =
     bindS (check_status_code response) (\<lambda>_.
     bindS (liftE (bindE (response_json response) (\<lambda>data.
                   bindE (py_getitem data ''list'') py_iter))) (\<lambda>nodes.
     process_nodes self process_node None nodes))"

text \<open>\<^verbatim>\<open>k in v\<close> for a string \<open>k\<close>: a key of a dictionary, an element of a list, a
  substring of a string.\<close>

fun is_substring :: "string \<Rightarrow> string \<Rightarrow> bool" where
  "is_substring k [] = (k = [])"
| "is_substring k (c # cs) = (take (length k) (c # cs) = k \<or> is_substring k cs)"

definition py_in :: "string \<Rightarrow> json \<Rightarrow> exn + bool" where
  "py_in k v =
     (case v of
        JObj d \<Rightarrow> Inr (k \<in> set (map fst d))
      | JArr xs \<Rightarrow> Inr (JStr k \<in> set xs)
      | JStr s \<Rightarrow> Inr (is_substring k s)
      | _ \<Rightarrow> Inl TypeError)"

text \<open>\<^verbatim>\<open>range(a, b)\<close>\<close>

definition py_range :: "int \<Rightarrow> int \<Rightarrow> int list" where
  "py_range a b = [a..b - 1]"

text \<open>The page range of \<^verbatim>\<open>ingest\<close>: no further page without a \<^verbatim>\<open>next\<close> link; else
  \<^verbatim>\<open>range(*pages)\<close> with the page numbers of the \<^verbatim>\<open>first\<close> and \<^verbatim>\<open>last\<close> links, one
  added to each. Both links are read before either is parsed.\<close>

definition pagerange :: "json \<Rightarrow> exn + int list" where
  "pagerange data =
     bindE (py_in ''next'' data) (\<lambda>has_next.
       if has_next
       then bindE (py_getitem data ''first'') (\<lambda>first_url.
            bindE (py_getitem data ''last'') (\<lambda>last_url.
            bindE (extract_page first_url) (\<lambda>f.
            bindE (extract_page last_url) (\<lambda>l.
            Inr (py_range (f + 1) (l + 1))))))
       else Inr [])"

text \<open>The default branch (\<^verbatim>\<open>is_threadsafe\<close> false): every page of the range is
  submitted to the pool as a \<^verbatim>\<open>_request\<close>, then the futures are read in submission
  order and each response is processed on the calling thread; \<^verbatim>\<open>future.result()\<close>
  raises what the request raised.\<close>

definition submit_requests :: "loader \<Rightarrow> int list \<Rightarrow> (exn + response) list step" where
  "submit_requests self pages st =
     (Inr (map (api_client_get self) pages), st\<lparr>requests := requests st @ pages\<rparr>)"

fun process_futures ::
  "loader \<Rightarrow> (dict \<Rightarrow> 'r step) \<Rightarrow> (exn + response) list \<Rightarrow> unit step" where
  "process_futures self process_node [] = liftE (Inr ())"
| "process_futures self process_node (future # futures) =
     bindS (liftE future) (\<lambda>response.
     bindS (process_response self process_node response) (\<lambda>_.
     process_futures self process_node futures))"

text \<open>The other branch (\<^verbatim>\<open>is_threadsafe\<close> true) submits \<^verbatim>\<open>_load_data\<close> for every page
  and never reads a future, so what a page raises stays in its future. The pool may
  interleave the pages; \<open>load_data_pages\<close> is the schedule that runs them one after
  the other in submission order.\<close>

fun load_data_pages :: "loader \<Rightarrow> (dict \<Rightarrow> 'r step) \<Rightarrow> int list \<Rightarrow> unit step" where
  "load_data_pages self process_node [] st = (Inr (), st)"
| "load_data_pages self process_node (page # pages) st =
     load_data_pages self process_node pages
       (snd (bindS (request self page) (process_response self process_node) st))"

definition ingest :: "loader \<Rightarrow> (dict \<Rightarrow> 'r step) \<Rightarrow> unit step" where
  "ingest self process_node =
     bindS (request self 0) (\<lambda>response.
     bindS (process_response self process_node response) (\<lambda>_.
     bindS (liftE (bindE (response_json response) pagerange)) (\<lambda>pages.
       if is_threadsafe self then load_data_pages self process_node pages
       else bindS (submit_requests self pages) (process_futures self process_node))))"

subsection \<open>XSeriesMarketingSiteDataLoader\<close>

text \<open>The two statements that compute the overview from the cleaned body.\<close>

definition xseries_overview :: "string \<Rightarrow> string" where
  "xseries_overview cleaned = py_strip (py_lstrip ''### XSeries Program Overview'' cleaned)"

definition update_program :: "nat \<Rightarrow> (program \<Rightarrow> program) \<Rightarrow> unit step" where
  "update_program i f st = (Inr (), st\<lparr>programs := (programs st)[i := f (programs st ! i)]\<rparr>)"

definition xseries_process_node :: "loader \<Rightarrow> dict \<Rightarrow> nat option step" where
  "xseries_process_node self data =
     bindS (liftE (bindE (dict_item data ''url'') last_path_segment)) (\<lambda>marketing_slug st.
       (case matching (\<lambda>p. program_marketing_slug p = marketing_slug \<and>
                            program_partner p = partner self) (programs st) of
          [] \<Rightarrow>
            bindS (logger (Log_error
                     ''Program [%s] exists on the marketing site, but not in the Programs Service!''
                     [JStr marketing_slug]))
              (\<lambda>_. liftE (Inr None)) st
        | [program] \<Rightarrow>
            bindS (liftE (get_nested_url (dict_get data ''field_card_image''))) (\<lambda>card_image_url.
            bindS (liftE (get_nested_url (dict_get data ''field_product_video''))) (\<lambda>video_url.
            bindS (liftE (bindE (bindE (dict_item data ''body'') (\<lambda>body. py_getitem body ''value''))
                           (clean_html self))) (\<lambda>cleaned.
            bindS (liftE (get_or_create_video self video_url JNull)) (\<lambda>video.
            bindS (update_program program (\<lambda>p. p
                     \<lparr>program_subtitle := dict_get data ''field_xseries_subtitle_short'',
                      program_card_image_url := card_image_url,
                      program_overview := xseries_overview cleaned,
                      program_video := video,
                      program_credit_redemption_overview :=
                        dict_get data ''field_cards_section_description''\<rparr>)) (\<lambda>_.
            bindS (logger (Log_info ''Processed XSeries with marketing_slug [%s].''
                     [JStr marketing_slug])) (\<lambda>_.
            liftE (Inr (Some program)))))))) st
        | _ \<Rightarrow> (Inl MultipleObjectsReturned, st)))"

subsection \<open>CourseMarketingSiteDataLoader\<close>

text \<open>\<^verbatim>\<open>LANGUAGE_MAP\<close>, the names that are not ASCII as their UTF-8 bytes.\<close>

definition LANGUAGE_MAP :: "(string \<times> string) list" where
  "LANGUAGE_MAP =
     [(''English'', ''en-us''),
      ([CHR 0xE6, CHR 0x97, CHR 0xA5, CHR 0xE6, CHR 0x9C, CHR 0xAC, CHR 0xE8, CHR 0xAA, CHR 0x9E], ''ja''),
      ([CHR 0xE7, CHR 0xB9, CHR 0x81, CHR 0xE9, CHR 0xAB, CHR 0x94, CHR 0xE4, CHR 0xB8, CHR 0xAD,
        CHR 0xE6, CHR 0x96, CHR 0x87], ''zh-Hant''),
      (''Indonesian'', ''id''),
      (''Italian'', ''it-it''),
      (''Korean'', ''ko''),
      (''Simplified Chinese'', ''zh-Hans''),
      (''Deutsch'', ''de-de''),
      (''Espa'' @ [CHR 0xC3, CHR 0xB1] @ ''ol'', ''es-es''),
      (''Fran'' @ [CHR 0xC3, CHR 0xA7] @ ''ais'', ''fr-fr''),
      (''Nederlands'', ''nl-nl''),
      (''Portugu'' @ [CHR 0xC3, CHR 0xAA] @ ''s'', ''pt-pt''),
      (''P'' @ [CHR 0xD1, CHR 0x83, CHR 0xD1, CHR 0x81, CHR 0xD1, CHR 0x81, CHR 0xD0, CHR 0xBA,
                CHR 0xD0, CHR 0xB8, CHR 0xD0, CHR 0xB9], ''ru''),
      (''Svenska'', ''sv-se''),
      (''T'' @ [CHR 0xC3, CHR 0xBC] @ ''rk'' @ [CHR 0xC3, CHR 0xA7] @ ''e'', ''tr''),
      ([CHR 0xD8, CHR 0xA7, CHR 0xD9, CHR 0x84, CHR 0xD8, CHR 0xB9, CHR 0xD8, CHR 0xB1, CHR 0xD8,
        CHR 0xA8, CHR 0xD9, CHR 0x8A, CHR 0xD8, CHR 0xA9], ''ar-sa''),
      ([CHR 0xE0, CHR 0xA4, CHR 0xB9, CHR 0xE0, CHR 0xA4, CHR 0xBF, CHR 0xE0, CHR 0xA4, CHR 0x82,
        CHR 0xE0, CHR 0xA4, CHR 0xA6, CHR 0xE0, CHR 0xA5, CHR 0x80], ''hi''),
      ([CHR 0xE4, CHR 0xB8, CHR 0xAD, CHR 0xE6, CHR 0x96, CHR 0x87], ''zh-cmn'')]"

text \<open>\<^verbatim>\<open>get_language_tags_from_names\<close>: the language tags whose code is the code of
  one of the names (a name outside the table gives \<^verbatim>\<open>None\<close>, which no code equals).\<close>

definition get_language_tags_from_names :: "catalog \<Rightarrow> string list \<Rightarrow> nat list" where
  "get_language_tags_from_names st names =
     (let language_codes = map (map_of LANGUAGE_MAP) names
      in matching (\<lambda>t. Some (language_code t) \<in> set language_codes) (language_tags st))"

text \<open>\<^verbatim>\<open>_extract_language_tags\<close>\<close>

definition extract_language_tags :: "catalog \<Rightarrow> json \<Rightarrow> exn + nat list" where
  "extract_language_tags st raw_objects_data =
     bindE (py_iter raw_objects_data) (\<lambda>objects.
     bindE (mapE (\<lambda>object. bindE (py_getitem object ''name'') str_strip) objects)
       (\<lambda>language_names.
     Inr (get_language_tags_from_names st language_names)))"

text \<open>\<^verbatim>\<open>_get_objects_by_uuid\<close>: \<^verbatim>\<open>object_type.objects.filter(uuid__in=uuids)\<close> over the
  table \<open>rows\<close> of the object type, \<open>uuid_of\<close> its \<^verbatim>\<open>uuid\<close> column. A UUID is
  compared as its text (the ORM's parsing of UUID text is not modelled).\<close>

definition get_objects_by_uuid :: "('a \<Rightarrow> string) \<Rightarrow> 'a list \<Rightarrow> json \<Rightarrow> exn + nat list" where
  "get_objects_by_uuid uuid_of rows raw_objects_data =
     bindE (py_iter raw_objects_data) (\<lambda>objects.
     bindE (mapE (\<lambda>object. py_get object ''uuid'') objects) (\<lambda>uuids.
     Inr (matching (\<lambda>row. JStr (uuid_of row) \<in> set uuids) rows)))"

text \<open>\<^verbatim>\<open>relation.add(*objs)\<close> on a many-to-many relation: rows already related are not
  added again.\<close>

definition m2m_add :: "nat list \<Rightarrow> nat list \<Rightarrow> nat list" where
  "m2m_add related objs = related @ filter (\<lambda>i. i \<notin> set related) (remdups objs)"

definition update_course :: "nat \<Rightarrow> (course \<Rightarrow> course) \<Rightarrow> unit step" where
  "update_course i f st = (Inr (), st\<lparr>courses := (courses st)[i := f (courses st ! i)]\<rparr>)"

definition update_course_run :: "nat \<Rightarrow> (course_run \<Rightarrow> course_run) \<Rightarrow> unit step" where
  "update_course_run i f st =
     (Inr (), st\<lparr>course_runs := (course_runs st)[i := f (course_runs st ! i)]\<rparr>)"

text \<open>\<^verbatim>\<open>set_authoring_organizations\<close>, \<^verbatim>\<open>set_subjects\<close>, \<^verbatim>\<open>set_course_run_staff\<close> and
  \<^verbatim>\<open>set_course_run_transcript_languages\<close>: resolve, clear, add.\<close>

definition set_authoring_organizations :: "nat \<Rightarrow> dict \<Rightarrow> unit step" where
  "set_authoring_organizations course data =
     bindS (\<lambda>st. (bindE (dict_item data ''field_course_school_node'')
                    (get_objects_by_uuid organization_uuid (organizations st)), st)) (\<lambda>schools.
     bindS (update_course course (\<lambda>c. c\<lparr>course_authoring_organizations := []\<rparr>)) (\<lambda>_.
     update_course course (\<lambda>c. c\<lparr>course_authoring_organizations :=
                                   m2m_add (course_authoring_organizations c) schools\<rparr>)))"

definition set_subjects :: "nat \<Rightarrow> dict \<Rightarrow> unit step" where
  "set_subjects course data =
     bindS (\<lambda>st. (bindE (dict_item data ''field_course_subject'')
                    (get_objects_by_uuid subject_uuid (subjects st)), st)) (\<lambda>subjs.
     bindS (update_course course (\<lambda>c. c\<lparr>course_subjects := []\<rparr>)) (\<lambda>_.
     update_course course (\<lambda>c. c\<lparr>course_subjects := m2m_add (course_subjects c) subjs\<rparr>)))"

definition set_course_run_staff :: "nat \<Rightarrow> dict \<Rightarrow> unit step" where
  "set_course_run_staff course_run data =
     bindS (\<lambda>st. (bindE (dict_item data ''field_course_staff'')
                    (get_objects_by_uuid person_uuid (people st)), st)) (\<lambda>staff.
     bindS (update_course_run course_run (\<lambda>r. r\<lparr>run_staff := []\<rparr>)) (\<lambda>_.
     update_course_run course_run (\<lambda>r. r\<lparr>run_staff := m2m_add (run_staff r) staff\<rparr>)))"

definition set_course_run_transcript_languages :: "nat \<Rightarrow> dict \<Rightarrow> unit step" where
  "set_course_run_transcript_languages course_run data =
     bindS (\<lambda>st. (bindE (dict_item data ''field_course_video_locale_lang'')
                    (extract_language_tags st), st)) (\<lambda>tags.
     bindS (update_course_run course_run (\<lambda>r. r\<lparr>run_transcript_languages := []\<rparr>)) (\<lambda>_.
     update_course_run course_run (\<lambda>r. r\<lparr>run_transcript_languages :=
                                           m2m_add (run_transcript_languages r) tags\<rparr>)))"

text \<open>\<^verbatim>\<open>get_description\<close>: the second \<^verbatim>\<open>.get('value')\<close> runs only when the first
  description is false.\<close>

definition get_description :: "loader \<Rightarrow> dict \<Rightarrow> exn + string" where
  "get_description self data =
     bindE (py_get (py_or (dict_get_default data ''field_course_body'' (JObj [])) (JObj []))
              ''value'') (\<lambda>description.
     bindE (if truthy description then Inr description
            else py_get (py_or (dict_get_default data ''field_course_description'' (JObj []))
                           (JObj [])) ''value'') (\<lambda>description.
     clean_html self (py_or description (JStr []))))"

text \<open>\<^verbatim>\<open>get_course_run_status\<close>\<close>

definition get_course_run_status :: "dict \<Rightarrow> exn + CourseRunStatus" where
  "get_course_run_status data =
     bindE (dict_item data ''status'') (\<lambda>status.
     bindE (py_int status) (\<lambda>n.
     Inr (if n \<noteq> 0 then Published else Unpublished)))"

text \<open>\<^verbatim>\<open>get_level_type\<close>, with \<^verbatim>\<open>LevelType.objects.get_or_create(name=name)\<close>.\<close>

definition get_level_type :: "json \<Rightarrow> nat option step" where
  "get_level_type name st =
     (if truthy name
      then (case matching (\<lambda>n. n = name) (level_types st) of
              [] \<Rightarrow> (Inr (Some (length (level_types st))),
                     st\<lparr>level_types := level_types st @ [name]\<rparr>)
            | [level_type] \<Rightarrow> (Inr (Some level_type), st)
            | _ \<Rightarrow> (Inl MultipleObjectsReturned, st))
      else (Inr None, st))"

text \<open>\<^verbatim>\<open>get_video\<close>, \<^verbatim>\<open>get_pacing_type\<close>, \<^verbatim>\<open>get_hidden\<close>\<close>

definition get_video :: "loader \<Rightarrow> dict \<Rightarrow> exn + nat option" where
  "get_video self data =
     bindE (get_nested_url (dict_get data ''field_product_video'')) (\<lambda>video_url.
     bindE (get_nested_url (dict_get data ''field_course_image_featured_card'')) (\<lambda>image_url.
     get_or_create_video self video_url image_url))"

definition get_pacing_type :: "dict \<Rightarrow> CourseRunPacing" where
  "get_pacing_type data =
     (let self_paced = dict_get_default data ''field_course_self_paced'' (JBool False)
      in if truthy self_paced then Self else Instructor)"

definition get_hidden :: "dict \<Rightarrow> bool" where
  "get_hidden data =
     (let hidden = dict_get_default data ''field_couse_is_hidden'' (JBool False)
      in hidden = JBool True)"

text \<open>A \<^verbatim>\<open>datetime\<close> in UTC is its POSIX time in seconds (the loader builds it from an
  integer, so it has no fraction). \<^verbatim>\<open>datetime.fromtimestamp(t, tz=pytz.UTC)\<close> raises
  outside the years 1 to 9999 (\<^verbatim>\<open>ValueError\<close>, or \<^verbatim>\<open>OverflowError\<close> beyond the
  platform's \<^verbatim>\<open>time_t\<close>, both given as \<open>ValueError\<close> here).\<close>

definition fromtimestamp :: "int \<Rightarrow> exn + int" where
  "fromtimestamp t =
     (if - 62135596800 \<le> t \<and> t \<le> 253402300799 then Inr t else Inl ValueError)"

text \<open>\<^verbatim>\<open>datetime.datetime.fromtimestamp(int(x), tz=pytz.UTC) if x else None\<close>\<close>

definition optional_datetime :: "json \<Rightarrow> exn + int option" where
  "optional_datetime x =
     (if truthy x then bindE (py_int x) (\<lambda>t. bindE (fromtimestamp t) (\<lambda>d. Inr (Some d)))
      else Inr None)"

text \<open>\<^verbatim>\<open>rrule.rrule(rrule.WEEKLY, dtstart=start, until=end)\<close>: the occurrences are
  \<open>dtstart\<close> and every whole week after it, as long as they are not after \<open>until\<close>;
  a week in UTC is 604800 seconds.\<close>

function rrule_weekly :: "int \<Rightarrow> int \<Rightarrow> int list" where
  "rrule_weekly dtstart until =
     (if dtstart \<le> until then dtstart # rrule_weekly (dtstart + 604800) until else [])"
  by pat_completeness auto
termination
  by (relation "measure (\<lambda>(dtstart, until). nat (until - dtstart + 1))") auto

text \<open>The duration of \<^verbatim>\<open>create_course_run\<close>: the \<^verbatim>\<open>if\<close>/\<^verbatim>\<open>elif\<close> that fills
  \<^verbatim>\<open>defaults['weeks_to_complete']\<close>, which starts as \<^verbatim>\<open>None\<close>. A \<^verbatim>\<open>datetime\<close> is
  always true, so \<^verbatim>\<open>start and end\<close> tests that neither is \<^verbatim>\<open>None\<close>.\<close>

definition weeks_to_complete :: "json \<Rightarrow> int option \<Rightarrow> int option \<Rightarrow> exn + int option" where
  "weeks_to_complete weeks start end' =
     (if truthy weeks then bindE (py_int weeks) (\<lambda>n. Inr (Some n))
      else (case (start, end') of
              (Some s, Some e) \<Rightarrow> Inr (Some (int (length (rrule_weekly s e))))
            | _ \<Rightarrow> Inr None))"

text \<open>The \<^verbatim>\<open>defaults\<close> dictionary of \<^verbatim>\<open>create_course_run\<close>, as the course run that
  \<^verbatim>\<open>update_or_create\<close> creates from it: its thirteen entries and empty relations.
  The language tags are read from the catalog.\<close>

definition course_run_defaults :: "loader \<Rightarrow> nat \<Rightarrow> dict \<Rightarrow> catalog \<Rightarrow> exn + course_run" where
  "course_run_defaults self course data st =
     bindE (dict_item data ''uuid'') (\<lambda>uuid.
     bindE (dict_item data ''field_course_id'') (\<lambda>key.
     bindE (bindE (dict_item data ''url'') last_path_segment) (\<lambda>slug.
     bindE (bindE (dict_item data ''field_course_languages'') (extract_language_tags st))
       (\<lambda>language_tags.
     bindE (optional_datetime (dict_get data ''field_course_start_date'')) (\<lambda>start.
     bindE (optional_datetime (dict_get data ''field_course_end_date'')) (\<lambda>end'.
     bindE (bindE (bindE (dict_item data ''field_course_course_title'')
                     (\<lambda>title. py_getitem title ''value'')) (clean_html self)) (\<lambda>title_override.
     bindE (get_nested_url (dict_get data ''field_course_image_promoted'')) (\<lambda>card_image_url.
     bindE (get_course_run_status data) (\<lambda>status.
     bindE (weeks_to_complete (dict_get data ''field_course_required_weeks'') start end')
       (\<lambda>weeks.
     Inr \<lparr>run_key = key,
          run_course = course,
          run_uuid = uuid,
          run_title_override = title_override,
          run_language = (case language_tags of [] \<Rightarrow> None | tag # _ \<Rightarrow> Some tag),
          run_slug = slug,
          run_card_image_url = card_image_url,
          run_status = status,
          run_start = start,
          run_pacing_type = get_pacing_type data,
          run_hidden = get_hidden data,
          run_weeks_to_complete = weeks,
          run_mobile_available =
            py_or (dict_get data ''field_course_enrollment_mobile'') (JBool False),
          run_staff = [],
          run_transcript_languages = []\<rparr>))))))))))"

text \<open>\<^verbatim>\<open>key__iexact=key\<close>: strings compare without case. The key is a string whenever
  \<^verbatim>\<open>process_node\<close> has parsed it; other objects are compared as they are.\<close>

definition key_iexact :: "json \<Rightarrow> json \<Rightarrow> bool" where
  "key_iexact a b = (case (a, b) of (JStr x, JStr y) \<Rightarrow> iexact x y | _ \<Rightarrow> a = b)"

text \<open>\<^verbatim>\<open>for k, v in defaults.items(): setattr(obj, k, v)\<close> on a course run.\<close>

definition course_run_setattrs :: "course_run \<Rightarrow> course_run \<Rightarrow> course_run" where
  "course_run_setattrs obj defaults =
     obj\<lparr>run_key := run_key defaults,
         run_course := run_course defaults,
         run_uuid := run_uuid defaults,
         run_title_override := run_title_override defaults,
         run_language := run_language defaults,
         run_slug := run_slug defaults,
         run_card_image_url := run_card_image_url defaults,
         run_status := run_status defaults,
         run_start := run_start defaults,
         run_pacing_type := run_pacing_type defaults,
         run_hidden := run_hidden defaults,
         run_weeks_to_complete := run_weeks_to_complete defaults,
         run_mobile_available := run_mobile_available defaults\<rparr>"

text \<open>\<^verbatim>\<open>CourseRun.objects.update_or_create(key__iexact=key, defaults=defaults)\<close>, the
  ORM's contract: the lookup is a \<^verbatim>\<open>get\<close>; no row creates one from the defaults, one
  row is updated with the defaults and saved, several rows raise
  \<^verbatim>\<open>MultipleObjectsReturned\<close>. The result is the row and whether it was created.\<close>

definition CourseRun_update_or_create :: "json \<Rightarrow> course_run \<Rightarrow> (nat \<times> bool) step" where
  "CourseRun_update_or_create key defaults st =
     (case matching (\<lambda>r. key_iexact (run_key r) key) (course_runs st) of
        [] \<Rightarrow> (Inr (length (course_runs st), True),
               st\<lparr>course_runs := course_runs st @ [defaults]\<rparr>)
      | [i] \<Rightarrow> (Inr (i, False),
                st\<lparr>course_runs := (course_runs st)[i := course_run_setattrs (course_runs st ! i) defaults]\<rparr>)
      | _ \<Rightarrow> (Inl MultipleObjectsReturned, st))"

text \<open>\<^verbatim>\<open>create_course_run\<close>: the handler around \<^verbatim>\<open>update_or_create\<close> catches
  \<^verbatim>\<open>TypeError\<close> and nothing else.\<close>

definition create_course_run :: "loader \<Rightarrow> nat \<Rightarrow> dict \<Rightarrow> nat option step" where
  "create_course_run self course data =
     bindS (\<lambda>st. (course_run_defaults self course data st, st)) (\<lambda>defaults st.
       (case CourseRun_update_or_create (run_key defaults) defaults st of
          (Inl e, st') \<Rightarrow>
            if e = TypeError
            then bindS (logger (Log_error
                          ''Multiple course runs are identified by the key [%s] or UUID [%s].''
                          [run_key defaults, run_uuid defaults]))
                   (\<lambda>_. liftE (Inr None)) st'
            else (Inl e, st')
        | (Inr (course_run, created), st') \<Rightarrow>
            bindS (set_course_run_staff course_run data) (\<lambda>_.
            bindS (set_course_run_transcript_languages course_run data) (\<lambda>_.
            bindS (logger (Log_info ''Processed course run with UUID [%s].''
                     [run_uuid defaults])) (\<lambda>_.
            liftE (Inr (Some course_run))))) st'))"

text \<open>The \<^verbatim>\<open>defaults\<close> dictionary of \<^verbatim>\<open>process_node\<close>, as the course that
  \<^verbatim>\<open>get_or_create\<close> creates from it: its eight entries, the partner of the lookup and
  empty relations. Its entries are evaluated in the order of the source.\<close>

definition course_defaults :: "loader \<Rightarrow> string \<Rightarrow> dict \<Rightarrow> course step" where
  "course_defaults self key data =
     bindS (liftE (bindE (bindE (dict_item data ''field_course_course_title'')
                            (\<lambda>title. py_getitem title ''value'')) (clean_html self))) (\<lambda>title.
     bindS (liftE (dict_item data ''field_course_code'')) (\<lambda>number.
     bindS (liftE (get_description self data)) (\<lambda>full_description.
     bindS (liftE (get_video self data)) (\<lambda>video.
     bindS (liftE (bindE (dict_item data ''field_course_sub_title_short'') (clean_html self)))
       (\<lambda>short_description.
     bindS (bindS (liftE (dict_item data ''field_course_level'')) get_level_type) (\<lambda>level_type.
     bindS (liftE (get_nested_url (dict_get data ''field_course_image_promoted'')))
       (\<lambda>card_image_url.
     liftE (Inr \<lparr>course_key = key,
                 course_partner = partner self,
                 course_title = title,
                 course_number = number,
                 course_full_description = full_description,
                 course_video = video,
                 course_short_description = short_description,
                 course_level_type = level_type,
                 course_card_image_url = card_image_url,
                 course_subjects = [],
                 course_authoring_organizations = []\<rparr>))))))))"

text \<open>\<^verbatim>\<open>for attr, value in defaults.items(): setattr(course, attr, value)\<close>\<close>

definition course_setattrs :: "course \<Rightarrow> course \<Rightarrow> course" where
  "course_setattrs obj defaults =
     obj\<lparr>course_key := course_key defaults,
         course_title := course_title defaults,
         course_number := course_number defaults,
         course_full_description := course_full_description defaults,
         course_video := course_video defaults,
         course_short_description := course_short_description defaults,
         course_level_type := course_level_type defaults,
         course_card_image_url := course_card_image_url defaults\<rparr>"

text \<open>\<^verbatim>\<open>Course.objects.get_or_create(key__iexact=key, partner=self.partner,
  defaults=defaults)\<close>: an existing row is returned as it is.\<close>

definition Course_get_or_create :: "string \<Rightarrow> nat \<Rightarrow> course \<Rightarrow> (nat \<times> bool) step" where
  "Course_get_or_create key p defaults st =
     (case matching (\<lambda>c. iexact (course_key c) key \<and> course_partner c = p) (courses st) of
        [] \<Rightarrow> (Inr (length (courses st), True), st\<lparr>courses := courses st @ [defaults]\<rparr>)
      | [i] \<Rightarrow> (Inr (i, False), st)
      | _ \<Rightarrow> (Inl MultipleObjectsReturned, st))"

text \<open>The assignment \<^verbatim>\<open>data['field_course_course_title']['value'] = self.clean_html(...)\<close>
  of \<^verbatim>\<open>process_node\<close>: the node with its title cleaned in place.\<close>

definition clean_title :: "loader \<Rightarrow> dict \<Rightarrow> exn + dict" where
  "clean_title self data =
     bindE (dict_item data ''field_course_course_title'') (\<lambda>title.
     bindE (py_getitem title ''value'') (\<lambda>v.
     bindE (clean_html self v) (\<lambda>cleaned.
       (case title of
          JObj t \<Rightarrow> Inr (dict_set data ''field_course_course_title''
                           (JObj (dict_set t ''value'' (JStr cleaned))))
        | _ \<Rightarrow> Inl TypeError))))"

text \<open>\<^verbatim>\<open>process_node\<close> of the course loader.\<close>

definition process_node :: "loader \<Rightarrow> dict \<Rightarrow> nat step" where
  "process_node self data0 =
     bindS (liftE (bindE (dict_item data0 ''field_course_id'') (CourseKey_from_string self)))
       (\<lambda>course_run_key.
     bindS (liftE (clean_title self data0)) (\<lambda>data.
     bindS (course_defaults self (get_course_key_from_course_run_key self course_run_key) data)
       (\<lambda>defaults.
     bindS (Course_get_or_create (course_key defaults) (partner self) defaults)
       (\<lambda>(course, created).
     bindS (liftE (get_course_run_status data)) (\<lambda>status.
     bindS (if \<not> created \<and> status = Published
            then update_course course (\<lambda>c. course_setattrs c defaults)
            else liftE (Inr ())) (\<lambda>_.
     bindS (set_subjects course data) (\<lambda>_.
     bindS (set_authoring_organizations course data) (\<lambda>_.
     bindS (create_course_run self course data) (\<lambda>_.
     bindS (logger (Log_info ''Processed course with key [%s].'' [JStr (course_key defaults)]))
       (\<lambda>_.
     liftE (Inr course)))))))))))"

section \<open>Observations used in the statements\<close>

text \<open>The thirteen columns of a course run, its two relations left out.\<close>

definition run_fields :: "course_run \<Rightarrow> course_run" where
  "run_fields r = r\<lparr>run_staff := [], run_transcript_languages := []\<rparr>"

text \<open>A step respects a relation between the catalog before and after it, whatever
  it returns or raises.\<close>

definition frame :: "(catalog \<Rightarrow> catalog \<Rightarrow> bool) \<Rightarrow> 'a step \<Rightarrow> bool" where
  "frame R m = (\<forall>st. R st (snd (m st)))"

text \<open>Every course run has kept its columns.\<close>

definition same_runs :: "catalog \<Rightarrow> catalog \<Rightarrow> bool" where
  "same_runs st st' = (map run_fields (course_runs st') = map run_fields (course_runs st))"

text \<open>The pages requested so far are the same.\<close>

definition same_requests :: "catalog \<Rightarrow> catalog \<Rightarrow> bool" where
  "same_requests st st' = (requests st' = requests st)"

text \<open>The rows of a table whose UUID is the \<^verbatim>\<open>uuid\<close> of one of the references of a
  node (\<open>refs\<close>, the dictionaries of a relation field).\<close>

definition referenced :: "('a \<Rightarrow> string) \<Rightarrow> 'a list \<Rightarrow> dict list \<Rightarrow> nat set" where
  "referenced uuid_of rows refs =
     {i. i < length rows \<and> JStr (uuid_of (rows ! i)) \<in> (\<lambda>ref. dict_get ref ''uuid'') ` set refs}"

text \<open>The mutable columns of a course: title, number, full and short description,
  video, level type and card image URL; \<open>same_courses\<close> when every course has kept
  them, \<open>courses_kept\<close> when courses may have been added as well.\<close>

definition mutable_fields ::
  "course \<Rightarrow> string \<times> json \<times> string \<times> string \<times> nat option \<times> nat option \<times> json" where
  "mutable_fields c =
     (course_title c, course_number c, course_full_description c, course_short_description c,
      course_video c, course_level_type c, course_card_image_url c)"

definition same_courses :: "catalog \<Rightarrow> catalog \<Rightarrow> bool" where
  "same_courses st st' = (map mutable_fields (courses st') = map mutable_fields (courses st))"

definition courses_kept :: "catalog \<Rightarrow> catalog \<Rightarrow> bool" where
  "courses_kept st st' =
     (\<exists>added. map mutable_fields (courses st') = map mutable_fields (courses st) @ added)"

section \<open>A small catalog and a node, for the examples\<close>

text \<open>
  The loader of the examples: its HTML cleaner returns a text without markup stripped
  of surrounding white space, its string cleaner returns a dictionary as it is, it has
  no videos, it takes \<open>org+number\<close> of \<open>course-v1:org+number+run\<close> as the course key,
  and its HTTP client is \<open>api\<close>.
\<close>

definition demo_loader :: "(int \<Rightarrow> exn + response) \<Rightarrow> loader" where
  "demo_loader api =
     \<lparr>partner = 1,
      is_threadsafe = False,
      clean_strings = (\<lambda>v. case v of JObj d \<Rightarrow> Inr d | _ \<Rightarrow> Inl AttributeError),
      clean_html = (\<lambda>v. case v of JStr s \<Rightarrow> Inr (py_strip s) | _ \<Rightarrow> Inl AttributeError),
      get_or_create_video = (\<lambda>url image_url. Inr None),
      CourseKey_from_string = (\<lambda>v. case v of JStr s \<Rightarrow> Inr s | _ \<Rightarrow> Inl ValueError),
      get_course_key_from_course_run_key =
        (\<lambda>k. case split_on (CHR ''+'') (drop 10 k) of
                org # number # _ \<Rightarrow> org @ ''+'' @ number
              | _ \<Rightarrow> k),
      api_client_get = api\<rparr>"

definition offline :: "int \<Rightarrow> exn + response" where
  "offline page = Inl Exception"

text \<open>A catalog with one course, its one run, and the rows that nodes refer to.\<close>

definition demo_catalog :: catalog where
  "demo_catalog =
     \<lparr>courses =
        [\<lparr>course_key = ''edX+DemoX'',
          course_partner = 1,
          course_title = ''Demonstration Course'',
          course_number = JStr ''DemoX'',
          course_full_description = ''An introduction'',
          course_video = None,
          course_short_description = ''A demo'',
          course_level_type = Some 0,
          course_card_image_url = JStr ''https://www.edx.org/demo.jpg'',
          course_subjects = [0],
          course_authoring_organizations = []\<rparr>],
      course_runs =
        [\<lparr>run_key = JStr ''course-v1:edX+DemoX+1T2016'',
          run_course = 0,
          run_uuid = JStr ''8c2a1f0e-3b4d-4e5f-9a6b-7c8d9e0f1a21'',
          run_title_override = ''Demonstration Course'',
          run_language = None,
          run_slug = ''demox'',
          run_card_image_url = JStr ''https://www.edx.org/demo.jpg'',
          run_status = Published,
          run_start = Some 1451865600,
          run_pacing_type = Instructor,
          run_hidden = False,
          run_weeks_to_complete = Some 5,
          run_mobile_available = JBool False,
          run_staff = [0],
          run_transcript_languages = []\<rparr>],
      organizations = [\<lparr>organization_uuid = ''2f6d1e4a-9b3c-4d7e-8f10-a1b2c3d4e5f6'', organization_key = ''edX''\<rparr>],
      subjects = [\<lparr>subject_uuid = ''51a1c6f2-0d3e-4b7a-9c8d-e2f3a4b5c601'', subject_slug = ''physics''\<rparr>,
                  \<lparr>subject_uuid = ''51a1c6f2-0d3e-4b7a-9c8d-e2f3a4b5c602'', subject_slug = ''math''\<rparr>],
      people = [\<lparr>person_uuid = ''a7e3b9d0-5c1f-4a2b-8d6e-f0a1b2c3d401'', person_slug = ''ada''\<rparr>],
      language_tags = [\<lparr>language_code = ''en-us''\<rparr>],
      level_types = [JStr ''Introductory''],
      programs = [],
      log = [],
      requests = []\<rparr>"

text \<open>A node of that course's run, not published and filled with temporary data.\<close>

definition demo_node :: dict where
  "demo_node =
     [(''url'', JStr ''https://www.edx.org/course/demox''),
      (''uuid'', JStr ''8c2a1f0e-3b4d-4e5f-9a6b-7c8d9e0f1a21''),
      (''status'', JStr ''0''),
      (''field_course_id'', JStr ''course-v1:edX+DemoX+1T2016''),
      (''field_course_course_title'', JObj [(''value'', JStr ''TEMP'')]),
      (''field_course_code'', JStr ''TEMP''),
      (''field_course_sub_title_short'', JStr ''TEMP''),
      (''field_course_level'', JNull),
      (''field_course_languages'', JArr [JObj [(''name'', JStr ''English'')]]),
      (''field_course_start_date'', JStr ''1451865600''),
      (''field_course_end_date'', JStr ''1454284800''),
      (''field_course_subject'',
         JArr [JObj [(''uuid'', JStr ''51a1c6f2-0d3e-4b7a-9c8d-e2f3a4b5c602'')], JObj [(''uuid'', JStr ''51a1c6f2-0d3e-4b7a-9c8d-e2f3a4b5c609'')]]),
      (''field_course_school_node'', JArr [JObj [(''uuid'', JStr ''2f6d1e4a-9b3c-4d7e-8f10-a1b2c3d4e5f6'')]]),
      (''field_course_staff'', JArr [JObj [(''uuid'', JStr ''a7e3b9d0-5c1f-4a2b-8d6e-f0a1b2c3d409'')]]),
      (''field_course_video_locale_lang'', JArr [])]"

text \<open>The course run that this node describes: the defaults that
  \<open>create_course_run\<close> computes from it.\<close>

definition demo_node_run :: course_run where
  "demo_node_run =
     \<lparr>run_key = JStr ''course-v1:edX+DemoX+1T2016'',
      run_course = 0,
      run_uuid = JStr ''8c2a1f0e-3b4d-4e5f-9a6b-7c8d9e0f1a21'',
      run_title_override = ''TEMP'',
      run_language = Some 0,
      run_slug = ''demox'',
      run_card_image_url = JNull,
      run_status = Unpublished,
      run_start = Some 1451865600,
      run_pacing_type = Instructor,
      run_hidden = False,
      run_weeks_to_complete = Some 5,
      run_mobile_available = JBool False,
      run_staff = [],
      run_transcript_languages = []\<rparr>"

text \<open>The same catalog with a second course run whose key differs from the first
  run's key in case only.\<close>

definition duplicate_runs :: catalog where
  "duplicate_runs =
     demo_catalog\<lparr>course_runs :=
       course_runs demo_catalog @
       map (\<lambda>r. r\<lparr>run_key := JStr ''course-v1:EDX+DEMOX+1T2016'', run_uuid := JStr ''8c2a1f0e-3b4d-4e5f-9a6b-7c8d9e0f1a22''\<rparr>)
         (course_runs demo_catalog)\<rparr>"

text \<open>A catalog with one program, and an XSeries node for it whose body has no
  heading.\<close>

definition xseries_catalog :: catalog where
  "xseries_catalog =
     demo_catalog\<lparr>programs :=
       [\<lparr>program_marketing_slug = ''astrophysics'',
         program_partner = 1,
         program_subtitle = JNull,
         program_card_image_url = JNull,
         program_overview = [],
         program_video = None,
         program_credit_redemption_overview = JNull\<rparr>]\<rparr>"

definition xseries_node :: dict where
  "xseries_node =
     [(''url'', JStr ''https://www.edx.org/xseries/astrophysics''),
      (''body'', JObj [(''value'', JStr ''Some overview'')]),
      (''field_xseries_subtitle_short'', JStr ''Explore the universe'')]"

text \<open>A site of four pages, 0 to 3: every page names the first and the last page,
  every page but the last has a \<^verbatim>\<open>next\<close> link, and page 0 lists the node of the
  example.\<close>

definition demo_page_data :: "int \<Rightarrow> json" where
  "demo_page_data page =
     JObj ((if page < 3 then [(''next'', JStr ''https://www.edx.org/node.json?type=course&page=1'')]
            else []) @
           [(''first'', JStr ''https://www.edx.org/node.json?type=course&page=0''),
            (''last'', JStr ''https://www.edx.org/node.json?type=course&page=3''),
            (''list'', JArr (if page = 0 then [JObj demo_node] else []))])"

definition demo_page :: "int \<Rightarrow> response" where
  "demo_page page =
     \<lparr>status_code = 200,
      response_url = ''https://www.edx.org/node.json'',
      response_content = [],
      response_json = Inr (demo_page_data page)\<rparr>"

definition demo_site :: "int \<Rightarrow> exn + response" where
  "demo_site page = Inr (demo_page page)"

text \<open>The node of the example with its start at the epoch and its end a week later,
  both given as numbers.\<close>

definition epoch_node :: dict where
  "epoch_node =
     dict_set (dict_set demo_node ''field_course_start_date'' (JNum 0))
       ''field_course_end_date'' (JNum 604800)"

section \<open>Sequencing and frame lemmas\<close>

lemma bindE_eq_Inr: "bindE m f = Inr y \<longleftrightarrow> (\<exists>x. m = Inr x \<and> f x = Inr y)"
  by (cases m) auto

lemma bindS_liftE [simp]:
  "bindS (liftE (Inr x)) f st = f x st" "bindS (liftE (Inl e)) f st = (Inl e, st)"
  by (simp_all add: bindS_def liftE_def)

lemma map_list_update_pres:
  "f (g (xs ! k)) = f (xs ! k) \<Longrightarrow> map f (xs[k := g (xs ! k)]) = map f xs"
  by (cases "k < length xs") (simp_all add: map_update list_update_same_conv list_update_beyond)

lemma matching_nth: "i \<in> set (matching P rows) \<longleftrightarrow> i < length rows \<and> P (rows ! i)"
  by (auto simp: matching_def)

lemma matching_single: "matching P rows = [i] \<Longrightarrow> i < length rows \<and> P (rows ! i)"
  using matching_nth [of i P rows] by simp

lemma frame_bindS:
  assumes trans: "\<And>a b c. R a b \<Longrightarrow> R b c \<Longrightarrow> R a c"
    and m: "frame R m" and f: "\<And>x. frame R (f x)"
  shows "frame R (bindS m f)"
  unfolding frame_def
proof
  fix st
  obtain r st' where ms: "m st = (r, st')" by (cases "m st")
  have 1: "R st st'"
    using m ms by (auto simp: frame_def dest: spec [of _ st])
  show "R st (snd (bindS m f st))"
  proof (cases r)
    case (Inl e)
    then show ?thesis using ms 1 by (simp add: bindS_def)
  next
    case (Inr x)
    have "R st' (snd (f x st'))"
      using f [of x] by (simp add: frame_def)
    then have "R st (snd (f x st'))" using 1 trans by blast
    then show ?thesis using ms Inr by (simp add: bindS_def)
  qed
qed

lemma frameD: "frame R m \<Longrightarrow> m st = (r, st') \<Longrightarrow> R st st'"
  by (auto simp: frame_def dest: spec [of _ st])

subsection \<open>What the relation setters of a course run leave alone\<close>

lemma same_runs_trans: "same_runs a b \<Longrightarrow> same_runs b c \<Longrightarrow> same_runs a c"
  by (simp add: same_runs_def)

lemma same_runs_read: "frame same_runs (\<lambda>st. (g st, st))"
  by (simp add: frame_def same_runs_def)

lemma same_runs_liftE: "frame same_runs (liftE r)"
  by (simp add: frame_def same_runs_def liftE_def)

lemma same_runs_logger: "frame same_runs (logger r)"
  by (simp add: frame_def same_runs_def logger_def)

lemma same_runs_update:
  "(\<And>r. run_fields (f r) = run_fields r) \<Longrightarrow> frame same_runs (update_course_run i f)"
  by (simp add: frame_def same_runs_def update_course_run_def map_list_update_pres)

lemma same_runs_staff: "frame same_runs (set_course_run_staff r data)"
  unfolding set_course_run_staff_def
  by (intro frame_bindS same_runs_read same_runs_update)
     (simp_all add: run_fields_def same_runs_trans)

lemma same_runs_transcript: "frame same_runs (set_course_run_transcript_languages r data)"
  unfolding set_course_run_transcript_languages_def
  by (intro frame_bindS same_runs_read same_runs_update)
     (simp_all add: run_fields_def same_runs_trans)

lemma same_runs_tail:
  "frame same_runs
     (bindS (set_course_run_staff r data) (\<lambda>_.
      bindS (set_course_run_transcript_languages r data) (\<lambda>_.
      bindS (logger l) (\<lambda>_. liftE (Inr (Some r))))))"
  by (intro frame_bindS same_runs_staff same_runs_transcript same_runs_logger same_runs_liftE)
     (erule (1) same_runs_trans)+

lemma run_fields_setattrs: "run_fields (course_run_setattrs obj d) = run_fields d"
  by (simp add: run_fields_def course_run_setattrs_def)

lemma update_or_create_row:
  assumes "CourseRun_update_or_create key d st = (Inr (i, c), st1)"
  shows "i < length (course_runs st1) \<and> run_fields (course_runs st1 ! i) = run_fields d"
proof (cases "matching (\<lambda>r. key_iexact (run_key r) key) (course_runs st)")
  case Nil
  with assms show ?thesis
    by (auto simp: CourseRun_update_or_create_def nth_append)
next
  case (Cons j js)
  show ?thesis
  proof (cases js)
    case Nil
    with Cons have "matching (\<lambda>r. key_iexact (run_key r) key) (course_runs st) = [j]" by simp
    from matching_single [OF this] assms Cons Nil show ?thesis
      by (auto simp: CourseRun_update_or_create_def run_fields_setattrs)
  next
    case (Cons k ks)
    with assms \<open>matching _ _ = j # js\<close> show ?thesis
      by (simp add: CourseRun_update_or_create_def)
  qed
qed

text \<open>The course run that \<open>create_course_run\<close> returns is a row of the catalog and
  carries the defaults computed from the node.\<close>

lemma create_course_run_Some:
  assumes "create_course_run self course data st = (Inr (Some r), st')"
  shows "\<exists>d. course_run_defaults self course data st = Inr d \<and> r < length (course_runs st')
            \<and> run_fields (course_runs st' ! r) = run_fields d"
proof -
  from assms obtain d where d: "course_run_defaults self course data st = Inr d"
    by (cases "course_run_defaults self course data st") (auto simp: create_course_run_def bindS_def)
  let ?tail = "\<lambda>r. bindS (set_course_run_staff r data) (\<lambda>_.
      bindS (set_course_run_transcript_languages r data) (\<lambda>_.
      bindS (logger (Log_info ''Processed course run with UUID [%s].'' [run_uuid d]))
        (\<lambda>_. liftE (Inr (Some r)))))"
  obtain res st1 where u: "CourseRun_update_or_create (run_key d) d st = (res, st1)"
    by (cases "CourseRun_update_or_create (run_key d) d st")
  show ?thesis
  proof (cases res)
    case (Inl e)
    with assms d u show ?thesis
      by (auto simp: create_course_run_def bindS_def logger_def liftE_def split: if_splits)
  next
    case (Inr p)
    obtain i c where p: "p = (i, c)" by (cases p)
    from assms d u Inr p have t: "?tail i st1 = (Inr (Some r), st')"
      by (simp add: create_course_run_def bindS_def)
    have same: "same_runs st1 st'"
      using frameD [OF same_runs_tail t] .
    have ri: "r = i"
    proof -
      have "fst (?tail i st1) = Inr (Some i) \<or> (\<exists>e. fst (?tail i st1) = Inl e)"
        by (auto simp: bindS_def liftE_def logger_def split: prod.splits sum.splits)
      with t show ?thesis by auto
    qed
    have i: "i < length (course_runs st1) \<and> run_fields (course_runs st1 ! i) = run_fields d"
      using u Inr p update_or_create_row [of "run_key d" d st i c st1] by simp
    have len: "length (course_runs st') = length (course_runs st1)"
      using same by (auto simp: same_runs_def dest: arg_cong [where f = length])
    have "run_fields (course_runs st' ! i) = run_fields (course_runs st1 ! i)"
      using same i len by (auto simp: same_runs_def dest!: arg_cong [where f = "\<lambda>xs. xs ! i"])
    with len show ?thesis using d i ri by auto
  qed
qed

subsection \<open>What the steps of the course loader leave alone\<close>

lemma same_courses_trans: "same_courses a b \<Longrightarrow> same_courses b c \<Longrightarrow> same_courses a c"
  by (simp add: same_courses_def)

lemma courses_kept_trans: "courses_kept a b \<Longrightarrow> courses_kept b c \<Longrightarrow> courses_kept a c"
  by (auto simp: courses_kept_def)

lemma same_courses_kept: "frame same_courses m \<Longrightarrow> frame courses_kept m"
  by (simp add: frame_def same_courses_def courses_kept_def)

lemma same_courses_read: "frame same_courses (\<lambda>st. (g st, st))"
  by (simp add: frame_def same_courses_def)

lemma same_courses_liftE: "frame same_courses (liftE r)"
  by (simp add: frame_def same_courses_def liftE_def)

lemma same_courses_logger: "frame same_courses (logger r)"
  by (simp add: frame_def same_courses_def logger_def)

lemma same_courses_update:
  "(\<And>c. mutable_fields (f c) = mutable_fields c) \<Longrightarrow> frame same_courses (update_course i f)"
  by (simp add: frame_def same_courses_def update_course_def map_list_update_pres)

lemma same_courses_update_run: "frame same_courses (update_course_run i f)"
  by (simp add: frame_def same_courses_def update_course_run_def)

lemma same_courses_bindS:
  "frame same_courses m \<Longrightarrow> (\<And>x. frame same_courses (f x)) \<Longrightarrow> frame same_courses (bindS m f)"
  by (rule frame_bindS [where R = same_courses]) (auto intro: same_courses_trans)

lemma same_courses_subjects: "frame same_courses (set_subjects c data)"
  unfolding set_subjects_def
  by (intro same_courses_bindS same_courses_read same_courses_update)
     (simp_all add: mutable_fields_def)

lemma same_courses_organizations: "frame same_courses (set_authoring_organizations c data)"
  unfolding set_authoring_organizations_def
  by (intro same_courses_bindS same_courses_read same_courses_update)
     (simp_all add: mutable_fields_def)

lemma same_courses_staff: "frame same_courses (set_course_run_staff r data)"
  unfolding set_course_run_staff_def
  by (intro same_courses_bindS same_courses_read same_courses_update_run)

lemma same_courses_transcript: "frame same_courses (set_course_run_transcript_languages r data)"
  unfolding set_course_run_transcript_languages_def
  by (intro same_courses_bindS same_courses_read same_courses_update_run)

lemma frame_fun: "(\<And>st. R st (snd (m st))) \<Longrightarrow> frame R m"
  by (simp add: frame_def)

lemma courses_update_or_create:
  "courses (snd (CourseRun_update_or_create key d st)) = courses st"
  by (simp add: CourseRun_update_or_create_def split: list.splits)

lemma same_courses_create_course_run: "frame same_courses (create_course_run self c data)"
  unfolding create_course_run_def
proof (intro same_courses_bindS same_courses_read frame_fun)
  fix d :: course_run and st :: catalog
  let ?tail = "\<lambda>r. bindS (set_course_run_staff r data) (\<lambda>_.
      bindS (set_course_run_transcript_languages r data) (\<lambda>_.
      bindS (logger (Log_info ''Processed course run with UUID [%s].'' [run_uuid d]))
        (\<lambda>_. liftE (Inr (Some r)))))"
  have tail: "frame same_courses (?tail r)" for r
    by (intro same_courses_bindS same_courses_staff same_courses_transcript
          same_courses_logger same_courses_liftE)
  obtain res st1 where u: "CourseRun_update_or_create (run_key d) d st = (res, st1)"
    by (cases "CourseRun_update_or_create (run_key d) d st")
  have c1: "courses st1 = courses st"
    using courses_update_or_create [of "run_key d" d st] u by simp
  show "same_courses st (snd (case CourseRun_update_or_create (run_key d) d st of
          (Inl e, st') \<Rightarrow>
            if e = TypeError
            then bindS (logger (Log_error
                          ''Multiple course runs are identified by the key [%s] or UUID [%s].''
                          [run_key d, run_uuid d]))
                   (\<lambda>_. liftE (Inr None)) st'
            else (Inl e, st')
        | (Inr (course_run, created), st') \<Rightarrow> ?tail course_run st'))"
  proof (cases res)
    case (Inl e)
    then show ?thesis using u c1
      by (simp add: same_courses_def bindS_def logger_def liftE_def)
  next
    case (Inr p)
    obtain i cr where p: "p = (i, cr)" by (cases p)
    have "same_courses st1 (snd (?tail i st1))"
      using tail [of i] by (simp add: frame_def)
    then show ?thesis using u c1 Inr p by (simp add: same_courses_def)
  qed
qed

lemma same_courses_level_type: "frame same_courses (get_level_type name)"
  by (rule frame_fun) (simp add: get_level_type_def same_courses_def split: list.splits)

lemma same_courses_defaults: "frame same_courses (course_defaults self key data)"
  unfolding course_defaults_def
  by (intro same_courses_bindS same_courses_liftE same_courses_level_type)

lemma courses_kept_get_or_create: "frame courses_kept (Course_get_or_create key p d)"
  by (rule frame_fun) (simp add: Course_get_or_create_def courses_kept_def split: list.splits)

subsection \<open>The course loader on a node that is not published\<close>

lemma map_of_replace:
  "k' \<noteq> k \<Longrightarrow> map_of (map (\<lambda>(a, b). if a = k then (a, v) else (a, b)) d) k' = map_of d k'"
  by (induction d) auto

lemma map_of_dict_set: "k' \<noteq> k \<Longrightarrow> map_of (dict_set d k v) k' = map_of d k'"
  unfolding dict_set_def
  by (cases "k \<in> fst ` set d") (simp_all add: map_of_replace map_add_def split: option.splits)

lemma clean_title_status:
  "clean_title self data = Inr data' \<Longrightarrow> get_course_run_status data' = get_course_run_status data"
proof -
  assume a: "clean_title self data = Inr data'"
  then obtain title v cleaned where
    "(case title of
        JObj t \<Rightarrow> Inr (dict_set data ''field_course_course_title''
                         (JObj (dict_set t ''value'' (JStr cleaned))))
      | _ \<Rightarrow> Inl TypeError) = Inr data'"
    unfolding clean_title_def bindE_eq_Inr by blast
  then obtain w where "data' = dict_set data ''field_course_course_title'' w"
    by (cases title) auto
  then have "map_of data' ''status'' = map_of data ''status''"
    by (simp add: map_of_dict_set)
  then show ?thesis
    by (simp add: get_course_run_status_def dict_item_def)
qed


lemma frame_bindS_liftE:
  "(\<And>x. r = Inr x \<Longrightarrow> frame R (f x)) \<Longrightarrow> (\<And>st. R st st) \<Longrightarrow> frame R (bindS (liftE r) f)"
  by (cases r) (simp_all add: frame_def)

lemma frame_case_prod: "(\<And>a b. frame R (f a b)) \<Longrightarrow> frame R (case_prod f x)"
  by (cases x) simp

lemma courses_kept_bindS:
  "frame courses_kept m \<Longrightarrow> (\<And>x. frame courses_kept (f x)) \<Longrightarrow> frame courses_kept (bindS m f)"
  by (rule frame_bindS [where R = courses_kept]) (auto intro: courses_kept_trans)

lemma courses_kept_refl: "courses_kept st st"
  by (simp add: courses_kept_def)

lemma course_tail_same:
  "frame same_courses
     (bindS (set_subjects course data) (\<lambda>_.
      bindS (set_authoring_organizations course data) (\<lambda>_.
      bindS (create_course_run self course data) (\<lambda>_.
      bindS (logger l) (\<lambda>_. liftE (Inr course))))))"
  by (intro same_courses_bindS same_courses_subjects same_courses_organizations
        same_courses_create_course_run same_courses_logger same_courses_liftE)



lemma process_node_keeps:
  assumes "get_course_run_status data \<noteq> Inr Published"
  shows "frame courses_kept (process_node self data)"
  unfolding process_node_def
  apply (rule frame_bindS_liftE [OF _ courses_kept_refl])
  apply (rule frame_bindS_liftE [OF _ courses_kept_refl])
  apply (rule courses_kept_bindS [OF same_courses_kept [OF same_courses_defaults]])
  apply (rule courses_kept_bindS [OF courses_kept_get_or_create])
  apply (rule frame_case_prod)
  apply (rule frame_bindS_liftE [OF _ courses_kept_refl])
  apply (drule clean_title_status)
  apply (rule courses_kept_bindS)
  using assms apply (simp add: same_courses_kept [OF same_courses_liftE])
  apply (rule same_courses_kept [OF course_tail_same])
  done

subsection \<open>The course loader on a published node of an existing course\<close>

lemma bindS_eq_Inr:
  "bindS m f st = (Inr y, st') \<longleftrightarrow> (\<exists>x st1. m st = (Inr x, st1) \<and> f x st1 = (Inr y, st'))"
  by (auto simp: bindS_def split: prod.splits sum.splits)

lemma liftE_eq: "liftE r st = (r', st') \<longleftrightarrow> r = r' \<and> st = st'"
  by (auto simp: liftE_def)

lemma get_level_type_courses: "get_level_type name st = (r, st1) \<Longrightarrow> courses st1 = courses st"
  by (auto simp: get_level_type_def split: if_splits list.splits)

lemma course_defaults_Inr:
  assumes "course_defaults self key data st = (Inr d, st1)"
  shows "course_key d = key \<and> course_partner d = partner self \<and> courses st1 = courses st"
  using assms unfolding course_defaults_def bindS_eq_Inr liftE_eq
  by (auto dest: get_level_type_courses)


lemma courses_kept_nth:
  "courses_kept st st' \<Longrightarrow> i < length (courses st) \<Longrightarrow>
   i < length (courses st') \<and> mutable_fields (courses st' ! i) = mutable_fields (courses st ! i)"
proof -
  assume k: "courses_kept st st'" and i: "i < length (courses st)"
  then obtain added where m: "map mutable_fields (courses st') = map mutable_fields (courses st) @ added"
    by (auto simp: courses_kept_def)
  from m have "length (courses st') = length (courses st) + length added"
    by (auto dest: arg_cong [where f = length])
  with i have l: "i < length (courses st')" by simp
  from m have "map mutable_fields (courses st') ! i = (map mutable_fields (courses st) @ added) ! i"
    by simp
  with i l show ?thesis by (simp add: nth_append)
qed

lemma same_courses_nth:
  "same_courses st st' \<Longrightarrow> i < length (courses st) \<Longrightarrow>
   i < length (courses st') \<and> mutable_fields (courses st' ! i) = mutable_fields (courses st ! i)"
  by (rule courses_kept_nth) (simp_all add: courses_kept_def same_courses_def)

lemma mutable_fields_setattrs: "mutable_fields (course_setattrs c d) = mutable_fields d"
  by (simp add: mutable_fields_def course_setattrs_def)

lemma bindS_step: "m st = (Inr x, st1) \<Longrightarrow> bindS m f st = f x st1"
  by (simp add: bindS_def)

lemma bindS_update_course:
  "bindS (update_course i g) f st = f () (st\<lparr>courses := (courses st)[i := g (courses st ! i)]\<rparr>)"
  by (simp add: bindS_def update_course_def)

lemma process_node_published:
  assumes key: "bindE (dict_item data ''field_course_id'') (CourseKey_from_string self) = Inr course_run_key"
    and ct: "clean_title self data = Inr data'"
    and cd: "course_defaults self (get_course_key_from_course_run_key self course_run_key) data' st
               = (Inr defaults, st1)"
    and existing: "matching (\<lambda>c. iexact (course_key c) (get_course_key_from_course_run_key self course_run_key)
                     \<and> course_partner c = partner self) (courses st) = [course]"
    and status: "get_course_run_status data = Inr Published"
  shows "course < length (courses (snd (process_node self data st))) \<and>
         mutable_fields (courses (snd (process_node self data st)) ! course) = mutable_fields defaults"
proof -
  let ?key = "get_course_key_from_course_run_key self course_run_key"
  let ?tail = "bindS (set_subjects course data') (\<lambda>_.
      bindS (set_authoring_organizations course data') (\<lambda>_.
      bindS (create_course_run self course data') (\<lambda>_.
      bindS (logger (Log_info ''Processed course with key [%s].'' [JStr (course_key defaults)]))
       (\<lambda>_. liftE (Inr course)))))"
  let ?st2 = "st1\<lparr>courses := (courses st1)[course := course_setattrs (courses st1 ! course) defaults]\<rparr>"
  from course_defaults_Inr [OF cd]
  have d: "course_key defaults = ?key" "courses st1 = courses st" by simp_all
  have st': "get_course_run_status data' = Inr Published"
    using clean_title_status [OF ct] status by simp
  have goc: "Course_get_or_create (course_key defaults) (partner self) defaults st1
               = (Inr (course, False), st1)"
    using existing d by (simp add: Course_get_or_create_def)
  have s1: "bindS (course_defaults self ?key data') f st = f defaults st1" for f :: "course \<Rightarrow> nat step"
    using cd by (simp add: bindS_def)
  have s2: "bindS (Course_get_or_create (course_key defaults) (partner self) defaults) f st1
              = f (course, False) st1" for f :: "nat \<times> bool \<Rightarrow> nat step"
    using goc by (simp add: bindS_def)
  have pn: "process_node self data st = ?tail ?st2"
    by (simp add: process_node_def key ct s1 s2 st' bindS_update_course)
  have len: "course < length (courses st1)"
    using matching_single [OF existing] d by simp
  then have len2: "course < length (courses ?st2)" by simp
  have "same_courses ?st2 (snd (?tail ?st2))"
    using course_tail_same [of course data' self] by (simp add: frame_def)
  from same_courses_nth [OF this len2] len show ?thesis
    by (simp add: pn mutable_fields_setattrs)
qed

subsection \<open>The row that create_course_run writes\<close>

lemma course_run_defaults_Inr:
  assumes "course_run_defaults self course data st = Inr d"
  shows "\<exists>start end'.
           optional_datetime (dict_get data ''field_course_start_date'') = Inr start
         \<and> optional_datetime (dict_get data ''field_course_end_date'') = Inr end'
         \<and> weeks_to_complete (dict_get data ''field_course_required_weeks'') start end'
             = Inr (run_weeks_to_complete d)"
    and "run_hidden d = get_hidden data"
    and "get_course_run_status data = Inr (run_status d)"
    and "dict_item data ''field_course_id'' = Inr (run_key d)"
  using assms unfolding course_run_defaults_def bindE_eq_Inr
  by auto

lemma same_runs_nth:
  "same_runs st st' \<Longrightarrow> i < length (course_runs st) \<Longrightarrow>
   i < length (course_runs st') \<and> run_fields (course_runs st' ! i) = run_fields (course_runs st ! i)"
proof -
  assume s: "same_runs st st'" and i: "i < length (course_runs st)"
  from s have len: "length (course_runs st') = length (course_runs st)"
    by (auto simp: same_runs_def dest: arg_cong [where f = length])
  from s have "map run_fields (course_runs st') ! i = map run_fields (course_runs st) ! i"
    by (simp add: same_runs_def)
  with i len show ?thesis by simp
qed

text \<open>One matching row: it is overwritten with the defaults, also when a later step
  of \<open>create_course_run\<close> raises.\<close>

lemma create_course_run_updates:
  assumes d: "course_run_defaults self course data st = Inr d"
    and m: "matching (\<lambda>r. key_iexact (run_key r) (run_key d)) (course_runs st) = [i]"
  shows "i < length (course_runs (snd (create_course_run self course data st))) \<and>
         run_fields (course_runs (snd (create_course_run self course data st)) ! i) = run_fields d"
proof -
  let ?tail = "bindS (set_course_run_staff i data) (\<lambda>_.
      bindS (set_course_run_transcript_languages i data) (\<lambda>_.
      bindS (logger (Log_info ''Processed course run with UUID [%s].'' [run_uuid d]))
        (\<lambda>_. liftE (Inr (Some i)))))"
  let ?st1 = "st\<lparr>course_runs := (course_runs st)[i := course_run_setattrs (course_runs st ! i) d]\<rparr>"
  have c: "create_course_run self course data st = ?tail ?st1"
    by (simp add: create_course_run_def bindS_def d m CourseRun_update_or_create_def)
  have i: "i < length (course_runs ?st1)"
    using matching_single [OF m] by simp
  have "same_runs ?st1 (snd (?tail ?st1))"
    using same_runs_tail [of i data] by (simp add: frame_def)
  from same_runs_nth [OF this i] i show ?thesis
    by (simp add: c run_fields_setattrs)
qed

text \<open>Several matching rows: the lookup's exception leaves \<open>create_course_run\<close>.\<close>

lemma create_course_run_multiple:
  assumes d: "course_run_defaults self course data st = Inr d"
    and m: "matching (\<lambda>r. key_iexact (run_key r) (run_key d)) (course_runs st) = i # j # rest"
  shows "create_course_run self course data st = (Inl MultipleObjectsReturned, st)"
  by (simp add: create_course_run_def bindS_def d m CourseRun_update_or_create_def)

subsection \<open>Weekly recurrences\<close>

declare rrule_weekly.simps [simp del]

lemma rrule_weekly_length:
  "int (length (rrule_weekly s e)) = (if s \<le> e then (e - s) div 604800 + 1 else 0)"
proof (induction s e rule: rrule_weekly.induct)
  case (1 s e)
  show ?case
  proof (cases "s \<le> e")
    case True
    have "int (length (rrule_weekly s e)) = 1 + int (length (rrule_weekly (s + 604800) e))"
      using True by (subst rrule_weekly.simps) simp
    also have "\<dots> = 1 + (if s + 604800 \<le> e then (e - (s + 604800)) div 604800 + 1 else 0)"
      using 1 [OF True] by simp
    also have "\<dots> = (e - s) div 604800 + 1"
    proof (cases "s + 604800 \<le> e")
      case le: True
      have "(e - (s + 604800) + 604800) div 604800 = (e - (s + 604800)) div 604800 + 1"
        by (rule div_add_self2) simp
      moreover have "e - (s + 604800) + 604800 = e - s" by simp
      ultimately have "(e - s) div 604800 = (e - (s + 604800)) div 604800 + 1" by simp
      with le show ?thesis by simp
    next
      case gt: False
      with True have "(e - s) div 604800 = 0" by (simp add: div_pos_pos_trivial)
      with gt show ?thesis by simp
    qed
    finally show ?thesis using True by simp
  next
    case False
    then show ?thesis by (subst rrule_weekly.simps) simp
  qed
qed

lemma weekly_occurrences:
  "set (rrule_weekly s e) = {t. \<exists>k::nat. t = s + 604800 * int k \<and> t \<le> e}"
proof (induction s e rule: rrule_weekly.induct)
  case (1 s e)
  show ?case
  proof (cases "s \<le> e")
    case True
    have "set (rrule_weekly s e) = insert s (set (rrule_weekly (s + 604800) e))"
      using True by (subst rrule_weekly.simps) simp
    also have "\<dots> = insert s {t. \<exists>k::nat. t = s + 604800 + 604800 * int k \<and> t \<le> e}"
      using 1 [OF True] by simp
    also have "\<dots> = {t. \<exists>k::nat. t = s + 604800 * int k \<and> t \<le> e}" (is "?A = ?B")
    proof
      show "?A \<subseteq> ?B"
      proof
        fix t assume "t \<in> ?A"
        then consider "t = s" | k :: nat where "t = s + 604800 + 604800 * int k" "t \<le> e" by auto
        then show "t \<in> ?B"
        proof cases
          case 1
          then have "t = s + 604800 * int 0 \<and> t \<le> e" using True by simp
          then show ?thesis by blast
        next
          case 2
          then have "t = s + 604800 * int (Suc k) \<and> t \<le> e" by simp
          then show ?thesis by blast
        qed
      qed
      show "?B \<subseteq> ?A"
      proof
        fix t assume "t \<in> ?B"
        then obtain k :: nat where k: "t = s + 604800 * int k" "t \<le> e" by auto
        show "t \<in> ?A"
        proof (cases k)
          case 0
          then show ?thesis using k by simp
        next
          case (Suc j)
          then have "t = s + 604800 + 604800 * int j" using k by simp
          then show ?thesis using k by blast
        qed
      qed
    qed
    finally show ?thesis .
  next
    case False
    have "rrule_weekly s e = []" using False by (subst rrule_weekly.simps) simp
    moreover have "{t. \<exists>k::nat. t = s + 604800 * int k \<and> t \<le> e} = {}"
      using False by auto
    ultimately show ?thesis by simp
  qed
qed

lemma rrule_weekly_distinct: "distinct (rrule_weekly s e)"
proof (induction s e rule: rrule_weekly.induct)
  case (1 s e)
  show ?case
  proof (cases "s \<le> e")
    case True
    have "s \<notin> set (rrule_weekly (s + 604800) e)"
      by (auto simp: weekly_occurrences)
    then show ?thesis using True 1 [OF True] by (subst rrule_weekly.simps) simp
  next
    case False
    then show ?thesis by (subst rrule_weekly.simps) simp
  qed
qed

lemma weekly_count:
  "int (card {k::nat. s + 604800 * int k \<le> e}) = int (length (rrule_weekly s e))"
proof -
  let ?K = "{k::nat. s + 604800 * int k \<le> e}"
  have "set (rrule_weekly s e) = (\<lambda>k. s + 604800 * int k) ` ?K"
    by (auto simp: weekly_occurrences)
  moreover have "inj_on (\<lambda>k. s + 604800 * int k) ?K"
    by (simp add: inj_on_def)
  ultimately have "card (set (rrule_weekly s e)) = card ?K"
    by (simp add: card_image)
  with distinct_card [OF rrule_weekly_distinct, of s e] show ?thesis by simp
qed

subsection \<open>The examples, evaluated\<close>

lemma demo_run:
  "fst (create_course_run (demo_loader offline) 0 demo_node demo_catalog) = Inr (Some 0)"
  by code_simp

lemma demo_defaults:
  "course_run_defaults (demo_loader offline) 0 demo_node demo_catalog = Inr demo_node_run"
  by code_simp

lemma demo_defaults_zero_weeks:
  "course_run_defaults (demo_loader offline) 0
     (dict_set demo_node ''field_course_required_weeks'' (JNum 0)) demo_catalog
   = Inr demo_node_run"
  by code_simp

lemma epoch_defaults:
  "course_run_defaults (demo_loader offline) 0 epoch_node demo_catalog
   = Inr (demo_node_run\<lparr>run_start := None, run_weeks_to_complete := None\<rparr>)"
  by code_simp

lemma demo_matching:
  "matching (\<lambda>r. key_iexact (run_key r) (run_key demo_node_run)) (course_runs demo_catalog) = [0]"
  by code_simp

subsection \<open>The page loop\<close>

text \<open>When every node of a page has a \<^verbatim>\<open>url\<close> key, the loop does not raise, whatever
  the node processor does.\<close>

lemma process_nodes_with_urls:
  "\<forall>node \<in> set nodes. \<exists>u. py_getitem node ''url'' = Inr u \<Longrightarrow>
   fst (process_nodes self node_processor url nodes st) = Inr ()"
proof (induction nodes arbitrary: url st)
  case Nil
  then show ?case by simp
next
  case (Cons node nodes)
  then obtain u where u: "py_getitem node ''url'' = Inr u" by auto
  from Cons have IH: "fst (process_nodes self node_processor url' nodes st') = Inr ()" for url' st'
    by simp
  show ?case
    by (simp add: u IH split: prod.splits sum.splits)
qed

subsection \<open>Processing issues no request\<close>

lemma same_requests_bindS:
  "frame same_requests m \<Longrightarrow> (\<And>x. frame same_requests (f x)) \<Longrightarrow> frame same_requests (bindS m f)"
  by (rule frame_bindS [where R = same_requests]) (auto simp: same_requests_def)

lemma same_requests_read: "frame same_requests (\<lambda>st. (g st, st))"
  by (simp add: frame_def same_requests_def)

lemma same_requests_liftE: "frame same_requests (liftE r)"
  by (simp add: frame_def same_requests_def liftE_def)

lemma same_requests_logger: "frame same_requests (logger r)"
  by (simp add: frame_def same_requests_def logger_def)

lemma same_requests_check: "frame same_requests (check_status_code response)"
  unfolding check_status_code_def
  by (auto intro!: same_requests_bindS same_requests_logger same_requests_liftE)

lemma same_requests_nodes:
  assumes "\<And>d. frame same_requests (node_processor d)"
  shows "frame same_requests (process_nodes self node_processor url nodes)"
  unfolding frame_def
proof
  fix st
  show "same_requests st (snd (process_nodes self node_processor url nodes st))"
  proof (induction nodes arbitrary: url st)
    case Nil
    then show ?case by (simp add: same_requests_def)
  next
    case (Cons node nodes)
    have step: "same_requests st (snd (bindS (liftE (clean_strings self node)) node_processor st))"
      using same_requests_bindS [OF same_requests_liftE assms, of "clean_strings self node"]
      by (simp add: frame_def)
    have lg: "same_requests s (snd (logger r s))" for r s
      by (simp add: same_requests_def logger_def)
    show ?case
    proof (cases "py_getitem node ''url''")
      case (Inl e)
      show ?thesis
      proof (cases url)
        case None
        with Inl show ?thesis by (simp add: same_requests_def)
      next
        case (Some u)
        with Inl Cons [where url = url and st = "snd (logger (Log_exception ''Failed to load %s.'' [u]) st)"]
          lg [where s = st and r = "Log_exception ''Failed to load %s.'' [u]"]
        show ?thesis by (simp add: same_requests_def)
      qed
    next
      case (Inr u)
      obtain r st1 where b: "bindS (liftE (clean_strings self node)) node_processor st = (r, st1)"
        by (cases "bindS (liftE (clean_strings self node)) node_processor st")
      with step have s1: "same_requests st st1" by simp
      show ?thesis
      proof (cases r)
        case (Inl e)
        with Inr b s1 Cons [where url = "Some u" and st = "snd (logger (Log_exception ''Failed to load %s.'' [u]) st1)"]
          lg [where s = st1 and r = "Log_exception ''Failed to load %s.'' [u]"]
        show ?thesis by (simp add: same_requests_def)
      next
        case (Inr x)
        with \<open>py_getitem node ''url'' = Inr u\<close> b s1 Cons [where url = "Some u" and st = st1]
        show ?thesis by (simp add: same_requests_def)
      qed
    qed
  qed
qed

lemma same_requests_response:
  assumes "\<And>d. frame same_requests (node_processor d)"
  shows "frame same_requests (process_response self node_processor response)"
  unfolding process_response_def
  by (intro same_requests_bindS same_requests_check same_requests_liftE
        same_requests_nodes assms)

lemma same_requests_futures:
  assumes "\<And>d. frame same_requests (node_processor d)"
  shows "frame same_requests (process_futures self node_processor futures)"
proof (induction futures)
  case Nil
  then show ?case by (simp add: same_requests_liftE)
next
  case (Cons future futures)
  show ?case
    by (simp, intro same_requests_bindS same_requests_liftE same_requests_response assms Cons)
qed

lemma requests_load_data_pages:
  assumes "\<And>d. frame same_requests (node_processor d)"
  shows "requests (snd (load_data_pages self node_processor pages st)) = requests st @ pages"
proof (induction pages arbitrary: st)
  case Nil
  then show ?case by simp
next
  case (Cons page pages)
  let ?st0 = "st\<lparr>requests := requests st @ [page]\<rparr>"
  have "requests (snd (bindS (request self page) (process_response self node_processor) st))
        = requests st @ [page]"
  proof (cases "api_client_get self page")
    case (Inl e)
    then show ?thesis by (simp add: bindS_def request_def)
  next
    case (Inr response)
    have "same_requests ?st0 (snd (process_response self node_processor response ?st0))"
      using same_requests_response [OF assms, where self = self and response = response]
      by (simp add: frame_def)
    with Inr show ?thesis by (simp add: bindS_def request_def same_requests_def)
  qed
  with Cons [where st = "snd (bindS (request self page) (process_response self node_processor) st)"]
  show ?case by simp
qed

subsection \<open>The page range\<close>

lemma pagerange_links:
  assumes "py_in ''next'' data = Inr True"
    and "py_getitem data ''first'' = Inr first_url"
    and "py_getitem data ''last'' = Inr last_url"
    and "extract_page first_url = Inr f"
    and "extract_page last_url = Inr l"
  shows "pagerange data = Inr [f + 1..l]"
  using assms by (simp add: pagerange_def py_range_def)

lemma same_requests_update_course: "frame same_requests (update_course i f)"
  by (simp add: frame_def same_requests_def update_course_def)

lemma same_requests_update_run: "frame same_requests (update_course_run i f)"
  by (simp add: frame_def same_requests_def update_course_run_def)

lemma same_requests_subjects: "frame same_requests (set_subjects c data)"
  unfolding set_subjects_def
  by (intro same_requests_bindS same_requests_read same_requests_update_course)

lemma same_requests_organizations: "frame same_requests (set_authoring_organizations c data)"
  unfolding set_authoring_organizations_def
  by (intro same_requests_bindS same_requests_read same_requests_update_course)

lemma same_requests_staff: "frame same_requests (set_course_run_staff r data)"
  unfolding set_course_run_staff_def
  by (intro same_requests_bindS same_requests_read same_requests_update_run)

lemma same_requests_transcript: "frame same_requests (set_course_run_transcript_languages r data)"
  unfolding set_course_run_transcript_languages_def
  by (intro same_requests_bindS same_requests_read same_requests_update_run)

lemma same_requests_level_type: "frame same_requests (get_level_type name)"
  by (rule frame_fun) (simp add: get_level_type_def same_requests_def split: list.splits)

lemma same_requests_defaults: "frame same_requests (course_defaults self key data)"
  unfolding course_defaults_def
  by (intro same_requests_bindS same_requests_liftE same_requests_level_type)

lemma same_requests_get_or_create: "frame same_requests (Course_get_or_create key p d)"
  by (rule frame_fun) (simp add: Course_get_or_create_def same_requests_def split: list.splits)

lemma same_requests_create_course_run: "frame same_requests (create_course_run self c data)"
  unfolding create_course_run_def
proof (intro same_requests_bindS same_requests_read frame_fun)
  fix d :: course_run and st :: catalog
  let ?tail = "\<lambda>r. bindS (set_course_run_staff r data) (\<lambda>_.
      bindS (set_course_run_transcript_languages r data) (\<lambda>_.
      bindS (logger (Log_info ''Processed course run with UUID [%s].'' [run_uuid d]))
        (\<lambda>_. liftE (Inr (Some r)))))"
  have tail: "frame same_requests (?tail r)" for r
    by (intro same_requests_bindS same_requests_staff same_requests_transcript
          same_requests_logger same_requests_liftE)
  obtain res st1 where u: "CourseRun_update_or_create (run_key d) d st = (res, st1)"
    by (cases "CourseRun_update_or_create (run_key d) d st")
  have c1: "requests st1 = requests st"
    using u by (auto simp: CourseRun_update_or_create_def split: list.splits)
  show "same_requests st (snd (case CourseRun_update_or_create (run_key d) d st of
          (Inl e, st') \<Rightarrow>
            if e = TypeError
            then bindS (logger (Log_error
                          ''Multiple course runs are identified by the key [%s] or UUID [%s].''
                          [run_key d, run_uuid d]))
                   (\<lambda>_. liftE (Inr None)) st'
            else (Inl e, st')
        | (Inr (course_run, created), st') \<Rightarrow> ?tail course_run st'))"
  proof (cases res)
    case (Inl e)
    then show ?thesis using u c1
      by (simp add: same_requests_def bindS_def logger_def liftE_def)
  next
    case (Inr p)
    obtain i cr where p: "p = (i, cr)" by (cases p)
    have "same_requests st1 (snd (?tail i st1))"
      using tail [of i] by (simp add: frame_def)
    then show ?thesis using u c1 Inr p by (simp add: same_requests_def)
  qed
qed

lemma frame_if: "frame R a \<Longrightarrow> frame R b \<Longrightarrow> frame R (if c then a else b)"
  by simp

lemma same_requests_process_node: "frame same_requests (process_node self data)"
  unfolding process_node_def
  by (intro same_requests_bindS same_requests_liftE same_requests_defaults
        same_requests_get_or_create frame_case_prod frame_if same_requests_update_course
        same_requests_subjects same_requests_organizations same_requests_create_course_run
        same_requests_logger)

lemma process_response_with_urls:
  assumes "status_code response = 200"
    and "response_json response = Inr data"
    and "py_getitem data ''list'' = Inr (JArr nodes)"
    and "\<forall>node \<in> set nodes. \<exists>u. py_getitem node ''url'' = Inr u"
  shows "fst (process_response self node_processor response st) = Inr ()"
  using assms process_nodes_with_urls [of nodes self node_processor None st]
  by (simp add: process_response_def check_status_code_def py_iter_def)

subsection \<open>Relation sets\<close>

lemma mapE_uuids:
  "mapE (\<lambda>object. py_get object ''uuid'') (map JObj refs)
     = Inr (map (\<lambda>ref. dict_get ref ''uuid'') refs)"
  by (induction refs) (simp_all add: py_get_def)

lemma matching_set: "set (matching P rows) = {i. i < length rows \<and> P (rows ! i)}"
  by (auto simp: matching_def)

lemma matching_distinct: "distinct (matching P rows)"
  by (simp add: matching_def)

lemma get_objects_by_uuid_refs:
  "get_objects_by_uuid uuid_of rows (JArr (map JObj refs))
     = Inr (matching (\<lambda>row. JStr (uuid_of row) \<in> (\<lambda>ref. dict_get ref ''uuid'') ` set refs) rows)"
  by (simp add: get_objects_by_uuid_def py_iter_def mapE_uuids)

lemma referenced_matching:
  "referenced uuid_of rows refs
     = set (matching (\<lambda>row. JStr (uuid_of row) \<in> (\<lambda>ref. dict_get ref ''uuid'') ` set refs) rows)"
  by (simp add: referenced_def matching_set)

lemma m2m_add_empty: "distinct objs \<Longrightarrow> m2m_add [] objs = objs"
  by (simp add: m2m_add_def)

lemma set_subjects_refs:
  assumes "dict_item data ''field_course_subject'' = Inr (JArr (map JObj refs))"
    and "course < length (courses st)"
  shows "fst (set_subjects course data st) = Inr ()"
    and "set (course_subjects (courses (snd (set_subjects course data st)) ! course))
           = referenced subject_uuid (subjects st) refs"
    and "distinct (course_subjects (courses (snd (set_subjects course data st)) ! course))"
  using assms
  by (simp_all add: set_subjects_def bindS_def update_course_def get_objects_by_uuid_refs
      referenced_matching m2m_add_empty matching_distinct)

lemma set_authoring_organizations_refs:
  assumes "dict_item data ''field_course_school_node'' = Inr (JArr (map JObj refs))"
    and "course < length (courses st)"
  shows "fst (set_authoring_organizations course data st) = Inr ()"
    and "set (course_authoring_organizations
               (courses (snd (set_authoring_organizations course data st)) ! course))
           = referenced organization_uuid (organizations st) refs"
    and "distinct (course_authoring_organizations
               (courses (snd (set_authoring_organizations course data st)) ! course))"
  using assms
  by (simp_all add: set_authoring_organizations_def bindS_def update_course_def
      get_objects_by_uuid_refs referenced_matching m2m_add_empty matching_distinct)

lemma set_course_run_staff_refs:
  assumes "dict_item data ''field_course_staff'' = Inr (JArr (map JObj refs))"
    and "course_run < length (course_runs st)"
  shows "fst (set_course_run_staff course_run data st) = Inr ()"
    and "set (run_staff (course_runs (snd (set_course_run_staff course_run data st)) ! course_run))
           = referenced person_uuid (people st) refs"
    and "distinct (run_staff (course_runs (snd (set_course_run_staff course_run data st)) ! course_run))"
  using assms
  by (simp_all add: set_course_run_staff_def bindS_def update_course_run_def
      get_objects_by_uuid_refs referenced_matching m2m_add_empty matching_distinct)

section \<open>The claims\<close>

subsection \<open>C1: a node that is not published leaves the course's fields alone\<close>

text \<open>
  Claim C1. The course loader's \<open>process_node\<close> is run on a node whose course key
  selects exactly one course of the loader's partner (\<open>course\<close>, the existing course).
  When the node's status is Unpublished, that course has the same title, number, full
  and short description, video, level type and card image URL after the node as before
  it, whether \<open>process_node\<close> returns or raises. When the status is Published and the
  node's values can be computed (\<open>defaults\<close>), those seven fields are the node's
  values afterwards.
\<close>

theorem unpublished_node_keeps_course_fields:
  assumes key: "bindE (dict_item data ''field_course_id'') (CourseKey_from_string self)
                  = Inr course_run_key"
    and existing:
      "matching (\<lambda>c. iexact (course_key c) (get_course_key_from_course_run_key self course_run_key)
                     \<and> course_partner c = partner self) (courses st) = [course]"
    and status: "get_course_run_status data = Inr status"
    and run: "process_node self data st = (result, st')"
  shows "(status = Unpublished \<longrightarrow>
            course < length (courses st') \<and>
            mutable_fields (courses st' ! course) = mutable_fields (courses st ! course)) \<and>
         (status = Published \<longrightarrow>
            clean_title self data = Inr data' \<longrightarrow>
            course_defaults self (get_course_key_from_course_run_key self course_run_key) data' st
              = (Inr defaults, st1) \<longrightarrow>
            course < length (courses st') \<and>
            mutable_fields (courses st' ! course) = mutable_fields defaults)"
proof -
  have len: "course < length (courses st)"
    using matching_single [OF existing] by simp
  have 1: "course < length (courses st') \<and>
           mutable_fields (courses st' ! course) = mutable_fields (courses st ! course)"
    if "status = Unpublished"
  proof -
    from that status have "get_course_run_status data \<noteq> Inr Published" by simp
    from frameD [OF process_node_keeps [OF this] run] have "courses_kept st st'" .
    from courses_kept_nth [OF this len] show ?thesis .
  qed
  have 2: "course < length (courses st') \<and>
           mutable_fields (courses st' ! course) = mutable_fields defaults"
    if "status = Published" "clean_title self data = Inr data'"
       "course_defaults self (get_course_key_from_course_run_key self course_run_key) data' st
              = (Inr defaults, st1)"
    using process_node_published [OF key that(2) that(3) existing] status that(1) run by simp
  from 1 2 show ?thesis by blast
qed

theorem unpublished_node_keeps_course_fields_witness:
  "mutable_fields (courses (snd (process_node (demo_loader offline) demo_node demo_catalog)) ! 0)
     = (''Demonstration Course'', JStr ''DemoX'', ''An introduction'', ''A demo'', None, Some 0,
        JStr ''https://www.edx.org/demo.jpg'')
   \<and> mutable_fields (courses (snd (process_node (demo_loader offline)
          (dict_set demo_node ''status'' (JStr ''1'')) demo_catalog)) ! 0)
     = (''TEMP'', JStr ''TEMP'', [], ''TEMP'', None, None, JNull)"
proof -
  let ?L = "demo_loader offline"
  let ?N = "dict_set demo_node ''status'' (JStr ''1'')"
  let ?D = "\<lparr>course_key = ''edX+DemoX'', course_partner = 1, course_title = ''TEMP'',
             course_number = JStr ''TEMP'', course_full_description = [], course_video = None,
             course_short_description = ''TEMP'', course_level_type = None,
             course_card_image_url = JNull, course_subjects = [],
             course_authoring_organizations = []\<rparr>"
  have k: "get_course_key_from_course_run_key ?L ''course-v1:edX+DemoX+1T2016'' = ''edX+DemoX''"
    by code_simp
  have p: "partner ?L = 1" by (simp add: demo_loader_def)
  have key: "bindE (dict_item demo_node ''field_course_id'') (CourseKey_from_string ?L)
               = Inr ''course-v1:edX+DemoX+1T2016''"
    by code_simp
  have key': "bindE (dict_item ?N ''field_course_id'') (CourseKey_from_string ?L)
               = Inr ''course-v1:edX+DemoX+1T2016''"
    by code_simp
  have existing: "matching (\<lambda>c. iexact (course_key c)
                       (get_course_key_from_course_run_key ?L ''course-v1:edX+DemoX+1T2016'')
                     \<and> course_partner c = partner ?L) (courses demo_catalog) = [0]"
    unfolding k p by code_simp
  have u: "get_course_run_status demo_node = Inr Unpublished" by code_simp
  have pub: "get_course_run_status ?N = Inr Published" by code_simp
  have ct: "clean_title ?L ?N = Inr ?N" by code_simp
  have cd: "course_defaults ?L (get_course_key_from_course_run_key ?L ''course-v1:edX+DemoX+1T2016'')
              ?N demo_catalog = (Inr ?D, demo_catalog)"
    unfolding k by code_simp
  have old: "mutable_fields (courses demo_catalog ! 0)
     = (''Demonstration Course'', JStr ''DemoX'', ''An introduction'', ''A demo'', None, Some 0,
        JStr ''https://www.edx.org/demo.jpg'')"
    by (simp add: mutable_fields_def demo_catalog_def)
  have new: "mutable_fields ?D = (''TEMP'', JStr ''TEMP'', [], ''TEMP'', None, None, JNull)"
    by (simp add: mutable_fields_def)
  from unpublished_node_keeps_course_fields [OF key existing u surjective_pairing]
       unpublished_node_keeps_course_fields [OF key' existing pub surjective_pairing,
         of ?N ?D demo_catalog] ct cd old new
  show ?thesis by simp
qed

subsection \<open>C2: a node that is not published and an existing course run\<close>

text \<open>
  Claim C2 says that a node whose status is Unpublished makes no in-place update of
  an existing course run. The loader passes every node's values to
  \<^verbatim>\<open>CourseRun.objects.update_or_create\<close>; only the update of the course is guarded by
  the status. Counterexample: the catalog of the example has one run with the node's
  key, Published and titled \<open>Demonstration Course\<close>; after the node, whose status is
  Unpublished, that run is titled \<open>TEMP\<close> and is Unpublished.
\<close>

theorem unpublished_node_updates_course_run_counterexample:
  "get_course_run_status demo_node = Inr Unpublished
   \<and> matching (\<lambda>r. key_iexact (run_key r) (run_key demo_node_run)) (course_runs demo_catalog) = [0]
   \<and> run_title_override (course_runs demo_catalog ! 0) = ''Demonstration Course''
   \<and> run_status (course_runs demo_catalog ! 0) = Published
   \<and> run_title_override
         (course_runs (snd (create_course_run (demo_loader offline) 0 demo_node demo_catalog)) ! 0)
       = ''TEMP''
   \<and> run_status
         (course_runs (snd (create_course_run (demo_loader offline) 0 demo_node demo_catalog)) ! 0)
       = Unpublished"
proof -
  let ?st' = "snd (create_course_run (demo_loader offline) 0 demo_node demo_catalog)"
  have u: "get_course_run_status demo_node = Inr Unpublished" by code_simp
  have old: "run_title_override (course_runs demo_catalog ! 0) = ''Demonstration Course''"
    "run_status (course_runs demo_catalog ! 0) = Published"
    by (simp_all add: demo_catalog_def)
  from create_course_run_updates [OF demo_defaults demo_matching]
  have "run_title_override (course_runs ?st' ! 0) = ''TEMP''"
    and "run_status (course_runs ?st' ! 0) = Unpublished"
    by (auto simp: run_fields_def demo_node_run_def dest: arg_cong [where f = run_title_override]
        arg_cong [where f = run_status])
  with u old demo_matching show ?thesis by simp
qed

text \<open>
  Claim C2 as amended. The node's values can be computed (\<open>defaults\<close>) and exactly one
  course run has the node's key (\<open>i\<close>). After \<open>create_course_run\<close>, whether it returns
  or raises, all thirteen fields of that run are the node's values, and the run's
  status is the node's status, Published or Unpublished: the update of a course run
  in place does not depend on the status.
\<close>

theorem course_run_updated_whatever_the_status:
  assumes defaults: "course_run_defaults self course data st = Inr defaults"
    and existing: "matching (\<lambda>r. key_iexact (run_key r) (run_key defaults)) (course_runs st) = [i]"
    and run: "create_course_run self course data st = (result, st')"
  shows "i < length (course_runs st')
       \<and> run_fields (course_runs st' ! i) = run_fields defaults
       \<and> get_course_run_status data = Inr (run_status (course_runs st' ! i))"
proof -
  from create_course_run_updates [OF defaults existing] run
  have 1: "i < length (course_runs st')" and 2: "run_fields (course_runs st' ! i) = run_fields defaults"
    by simp_all
  from 2 have "run_status (course_runs st' ! i) = run_status defaults"
    by (auto simp: run_fields_def dest: arg_cong [where f = run_status])
  with course_run_defaults_Inr(3) [OF defaults] 1 2 show ?thesis by simp
qed

theorem course_run_updated_whatever_the_status_witness:
  "run_fields
     (course_runs (snd (create_course_run (demo_loader offline) 0 demo_node demo_catalog)) ! 0)
   = demo_node_run
   \<and> get_course_run_status demo_node = Inr Unpublished"
proof -
  have u: "get_course_run_status demo_node = Inr Unpublished" by code_simp
  have r: "run_fields demo_node_run = demo_node_run"
    by (simp add: run_fields_def demo_node_run_def)
  from course_run_updated_whatever_the_status [OF demo_defaults demo_matching surjective_pairing] u r
  show ?thesis by simp
qed

subsection \<open>C3: an exception in one node of a page\<close>

text \<open>
  Claim C3 says that on a page with status 200 an exception in one node, a missing
  key included, is caught and logged with that node's URL, and that the other nodes
  are still processed. The handler logs the local variable \<^verbatim>\<open>url\<close>, which is assigned
  inside the \<^verbatim>\<open>try\<close>. When the first node of a page has no \<^verbatim>\<open>url\<close> key, the handler
  itself raises \<^verbatim>\<open>UnboundLocalError\<close>: \<open>process_response\<close> raises, for every loader
  and every node processor, and the nodes after it are not processed. When a later
  node has no \<^verbatim>\<open>url\<close> key, the failure is logged with the URL of the node before it:
  here the XSeries loader logs the first node's missing program and then
  \<open>Failed to load\<close> with the first node's URL for the second node.
\<close>

theorem node_without_url_escapes_the_handler:
  "process_response self node_processor
     \<lparr>status_code = 200, response_url = u, response_content = c,
      response_json = Inr (JObj [(''list'', JArr (JObj [(''title'', JStr ''Physics'')] # nodes))])\<rparr>
     st
   = (Inl UnboundLocalError, st)
   \<and> process_response (demo_loader offline) (xseries_process_node (demo_loader offline))
       \<lparr>status_code = 200, response_url = u, response_content = c,
        response_json = Inr (JObj [(''list'',
          JArr [JObj [(''url'', JStr ''https://www.edx.org/xseries/a'')],
                JObj [(''title'', JStr ''Physics'')]])])\<rparr>
       demo_catalog
   = (Inr (), demo_catalog\<lparr>log :=
        [Log_error ''Program [%s] exists on the marketing site, but not in the Programs Service!''
           [JStr ''a''],
         Log_exception ''Failed to load %s.'' [JStr ''https://www.edx.org/xseries/a'']]\<rparr>)"
proof -
  have 1: "process_response self node_processor
     \<lparr>status_code = 200, response_url = u, response_content = c,
      response_json = Inr (JObj [(''list'', JArr (JObj [(''title'', JStr ''Physics'')] # nodes))])\<rparr>
     st
   = (Inl UnboundLocalError, st)"
    by (simp add: process_response_def check_status_code_def bindS_def liftE_def
        py_getitem_def dict_item_def py_iter_def)
  have 2: "process_response (demo_loader offline) (xseries_process_node (demo_loader offline))
       \<lparr>status_code = 200, response_url = u, response_content = c,
        response_json = Inr (JObj [(''list'',
          JArr [JObj [(''url'', JStr ''https://www.edx.org/xseries/a'')],
                JObj [(''title'', JStr ''Physics'')]])])\<rparr>
       demo_catalog
   = (Inr (), demo_catalog\<lparr>log :=
        [Log_error ''Program [%s] exists on the marketing site, but not in the Programs Service!''
           [JStr ''a''],
         Log_exception ''Failed to load %s.'' [JStr ''https://www.edx.org/xseries/a'']]\<rparr>)"
    by (simp add: process_response_def check_status_code_def bindS_def liftE_def
        py_getitem_def dict_item_def py_iter_def demo_loader_def xseries_process_node_def
        last_path_segment_def matching_def demo_catalog_def logger_def)
  from 1 2 show ?thesis by simp
qed

subsection \<open>C4: the pages scheduled after the first\<close>

text \<open>
  Claim C4. The first page (page 0) has been fetched and processed without an
  exception, its data has a \<^verbatim>\<open>next\<close> link, and the page numbers of its \<^verbatim>\<open>first\<close> and
  \<^verbatim>\<open>last\<close> links are \<open>f\<close> and \<open>l\<close>. Then the page range of \<open>ingest\<close> is
  \<open>f + 1, ..., l\<close>, the integers of \<open>[f + 1, l + 1)\<close>, each once; the pages requested
  by the whole run are page 0 and then exactly these, in both branches of \<open>ingest\<close>
  and whatever happens on the later pages; and with \<open>f\<close> not negative no page is
  requested twice. Node processors issue no request of their own (hypothesis
  \<open>quiet\<close>). In the example the links carry \<open>page=0\<close> and \<open>page=3\<close>, the range is
  1, 2, 3 and the course loader requests the pages 0, 1, 2, 3.
\<close>

theorem ingest_requests_the_pages_after_the_first:
  assumes page0: "api_client_get self 0 = Inr response"
    and data: "response_json response = Inr data"
    and processed: "fst (process_response self node_processor response
                       (st\<lparr>requests := requests st @ [0]\<rparr>)) = Inr ()"
    and nxt: "py_in ''next'' data = Inr True"
    and first_link: "py_getitem data ''first'' = Inr first_url"
    and last_link: "py_getitem data ''last'' = Inr last_url"
    and f: "extract_page first_url = Inr f"
    and l: "extract_page last_url = Inr l"
    and quiet: "\<forall>node. frame same_requests (node_processor node)"
    and run: "ingest self node_processor st = (result, st')"
  shows "pagerange data = Inr [f + 1..l]
       \<and> set [f + 1..l] = {f + 1..<l + 1}
       \<and> requests st' = requests st @ 0 # [f + 1..l]
       \<and> distinct [f + 1..l]
       \<and> (0 \<le> f \<longrightarrow> distinct (0 # [f + 1..l]))"
proof -
  let ?st0 = "st\<lparr>requests := requests st @ [0]\<rparr>"
  have q: "frame same_requests (node_processor node)" for node
    using quiet by simp
  have pr: "pagerange data = Inr [f + 1..l]"
    by (rule pagerange_links [OF nxt first_link last_link f l])
  obtain st1 where p0: "process_response self node_processor response ?st0 = (Inr (), st1)"
    using processed by (cases "process_response self node_processor response ?st0") simp
  have "frame same_requests (process_response self node_processor response)"
    by (rule same_requests_response) (rule q)
  from frameD [OF this p0] have r1: "requests st1 = requests st @ [0]"
    by (simp add: same_requests_def)
  have i: "ingest self node_processor st =
           (if is_threadsafe self then load_data_pages self node_processor [f + 1..l] st1
            else bindS (submit_requests self [f + 1..l]) (process_futures self node_processor) st1)"
    by (simp add: ingest_def bindS_def request_def page0 p0 data pr liftE_def)
  have st': "st' = snd (ingest self node_processor st)"
    using run by simp
  have "requests (snd (ingest self node_processor st)) = requests st1 @ [f + 1..l]"
  proof (cases "is_threadsafe self")
    case True
    have "requests (snd (load_data_pages self node_processor [f + 1..l] st1))
          = requests st1 @ [f + 1..l]"
      by (rule requests_load_data_pages) (rule q)
    with True show ?thesis by (simp add: i)
  next
    case False
    let ?st2 = "st1\<lparr>requests := requests st1 @ [f + 1..l]\<rparr>"
    have "frame same_requests (process_futures self node_processor
            (map (api_client_get self) [f + 1..l]))"
      by (rule same_requests_futures) (rule q)
    then have "same_requests ?st2 (snd (process_futures self node_processor
            (map (api_client_get self) [f + 1..l]) ?st2))"
      by (simp add: frame_def)
    with False show ?thesis
      by (simp add: i bindS_def submit_requests_def same_requests_def)
  qed
  with r1 pr st' show ?thesis by auto
qed

theorem ingest_requests_the_pages_after_the_first_witness:
  "pagerange (demo_page_data 0) = Inr [1, 2, 3]
   \<and> requests (snd (ingest (demo_loader demo_site) (process_node (demo_loader demo_site))
                      demo_catalog)) = [0, 1, 2, 3]"
proof -
  let ?L = "demo_loader demo_site"
  have page0: "api_client_get ?L 0 = Inr (demo_page 0)"
    by (simp add: demo_loader_def demo_site_def)
  have data: "response_json (demo_page 0) = Inr (demo_page_data 0)"
    by (simp add: demo_page_def)
  have nodes: "py_getitem (demo_page_data 0) ''list'' = Inr (JArr [JObj demo_node])"
    by code_simp
  have urls: "\<forall>node \<in> set [JObj demo_node]. \<exists>u. py_getitem node ''url'' = Inr u"
    by (simp add: py_getitem_def dict_item_def demo_node_def)
  have processed: "fst (process_response ?L (process_node ?L) (demo_page 0)
                     (demo_catalog\<lparr>requests := requests demo_catalog @ [0]\<rparr>)) = Inr ()"
    by (rule process_response_with_urls [OF _ data nodes urls]) (simp add: demo_page_def)
  have nxt: "py_in ''next'' (demo_page_data 0) = Inr True" by code_simp
  have first_link: "py_getitem (demo_page_data 0) ''first''
                      = Inr (JStr ''https://www.edx.org/node.json?type=course&page=0'')"
    by code_simp
  have last_link: "py_getitem (demo_page_data 0) ''last''
                      = Inr (JStr ''https://www.edx.org/node.json?type=course&page=3'')"
    by code_simp
  have f: "extract_page (JStr ''https://www.edx.org/node.json?type=course&page=0'') = Inr 0"
    by code_simp
  have l: "extract_page (JStr ''https://www.edx.org/node.json?type=course&page=3'') = Inr 3"
    by code_simp
  have quiet: "\<forall>node. frame same_requests (process_node ?L node)"
    by (simp add: same_requests_process_node)
  have r: "requests demo_catalog = []" by (simp add: demo_catalog_def)
  from ingest_requests_the_pages_after_the_first
         [OF page0 data processed nxt first_link last_link f l quiet surjective_pairing] r
  show ?thesis by (simp add: upto_rec1)
qed

subsection \<open>C5: the duration computed from the start and the end\<close>

text \<open>
  Claim C5 says that a node without an explicit weeks field, with both timestamps
  present and the start before the end, gets the number of weekly occurrences from
  the start through the end as its duration. The loader makes a \<^verbatim>\<open>datetime\<close> of a
  timestamp with \<^verbatim>\<open>... if start else None\<close>, so a timestamp that is present and false
  counts as absent. Counterexample: the node of the example with the start 0 (the
  epoch) and the end 604800 (a week later), both numbers, has no weeks field and both
  timestamps, the start before the end; it is processed without an exception and its
  run has no duration (\<^verbatim>\<open>None\<close>), where the weekly occurrences are two.
\<close>

theorem epoch_start_counterexample:
  "dict_get epoch_node ''field_course_required_weeks'' = JNull
   \<and> dict_get epoch_node ''field_course_start_date'' = JNum 0
   \<and> dict_get epoch_node ''field_course_end_date'' = JNum 604800
   \<and> py_int (JNum 0) = Inr 0 \<and> py_int (JNum 604800) = Inr 604800
   \<and> fromtimestamp 0 = Inr 0 \<and> fromtimestamp 604800 = Inr 604800
   \<and> card {k::nat. 0 + 604800 * int k \<le> 604800} = 2
   \<and> fst (create_course_run (demo_loader offline) 0 epoch_node demo_catalog) = Inr (Some 0)
   \<and> run_weeks_to_complete
        (course_runs (snd (create_course_run (demo_loader offline) 0 epoch_node demo_catalog)) ! 0)
       = None"
proof -
  have 1: "dict_get epoch_node ''field_course_required_weeks'' = JNull"
    "dict_get epoch_node ''field_course_start_date'' = JNum 0"
    "dict_get epoch_node ''field_course_end_date'' = JNum 604800"
    by code_simp+
  have 2: "py_int (JNum 0) = Inr 0" "py_int (JNum 604800) = Inr 604800"
    "fromtimestamp 0 = Inr 0" "fromtimestamp 604800 = Inr 604800"
    by (simp_all add: py_int_def fromtimestamp_def)
  have "{k::nat. 0 + 604800 * int k \<le> 604800} = {0, 1}" by auto
  then have 3: "card {k::nat. 0 + 604800 * int k \<le> 604800} = 2" by simp
  have 4: "fst (create_course_run (demo_loader offline) 0 epoch_node demo_catalog) = Inr (Some 0)"
    by code_simp
  have m: "matching (\<lambda>r. key_iexact (run_key r)
             (run_key (demo_node_run\<lparr>run_start := None, run_weeks_to_complete := None\<rparr>)))
             (course_runs demo_catalog) = [0]"
    using demo_matching by simp
  from create_course_run_updates [OF epoch_defaults m]
  have "run_weeks_to_complete
        (course_runs (snd (create_course_run (demo_loader offline) 0 epoch_node demo_catalog)) ! 0)
       = None"
    by (auto simp: run_fields_def dest: arg_cong [where f = run_weeks_to_complete])
  with 1 2 3 4 show ?thesis by simp
qed

text \<open>
  Claim C5 as amended. \<open>create_course_run\<close> has processed a node and returned the
  course run \<open>r\<close>. The node has no explicit weeks (the field is absent, or holds a
  false value, which the loader treats alike), and the loader has obtained a start and
  an end \<^verbatim>\<open>datetime\<close> from the node's timestamps (each holds a true value that converts),
  the start before the end. Then the run's \<open>weeks_to_complete\<close> is the number of weekly
  occurrences \<open>start\<close>, \<open>start + 1 week\<close>, ... that are not after the end, both ends
  counted: one more than the whole weeks between them, so not the quotient of the
  difference. In the example the start is Monday 2016-01-04 and the end Monday
  2016-02-01, four weeks later, and the duration is 5.
\<close>

theorem weeks_to_complete_counts_weekly_occurrences:
  assumes run: "create_course_run self course data st = (Inr (Some r), st')"
    and no_weeks: "\<not> truthy (dict_get data ''field_course_required_weeks'')"
    and start: "optional_datetime (dict_get data ''field_course_start_date'') = Inr (Some start)"
    and end': "optional_datetime (dict_get data ''field_course_end_date'') = Inr (Some end')"
    and before: "start < end'"
  shows "run_weeks_to_complete (course_runs st' ! r)
           = Some (int (card {k::nat. start + 604800 * int k \<le> end'}))
       \<and> run_weeks_to_complete (course_runs st' ! r) = Some ((end' - start) div 604800 + 1)
       \<and> run_weeks_to_complete (course_runs st' ! r) \<noteq> Some ((end' - start) div 604800)"
proof -
  from create_course_run_Some [OF run] obtain d where
    d: "course_run_defaults self course data st = Inr d"
    and r: "run_fields (course_runs st' ! r) = run_fields d" by blast
  from course_run_defaults_Inr(1) [OF d] start end'
  have "weeks_to_complete (dict_get data ''field_course_required_weeks'') (Some start) (Some end')
          = Inr (run_weeks_to_complete d)" by auto
  with no_weeks have w: "run_weeks_to_complete d = Some (int (length (rrule_weekly start end')))"
    by (simp add: weeks_to_complete_def)
  from r have "run_weeks_to_complete (course_runs st' ! r) = run_weeks_to_complete d"
    by (auto simp: run_fields_def dest: arg_cong [where f = run_weeks_to_complete])
  with w before show ?thesis
    by (simp add: weekly_count rrule_weekly_length)
qed

theorem weeks_to_complete_counts_weekly_occurrences_witness:
  "run_weeks_to_complete
     (course_runs (snd (create_course_run (demo_loader offline) 0 demo_node demo_catalog)) ! 0)
   = Some 5"
proof -
  have 1: "create_course_run (demo_loader offline) 0 demo_node demo_catalog
         = (Inr (Some 0), snd (create_course_run (demo_loader offline) 0 demo_node demo_catalog))"
    using demo_run by (simp add: prod_eq_iff)
  have 2: "\<not> truthy (dict_get demo_node ''field_course_required_weeks'')" by code_simp
  have 3: "optional_datetime (dict_get demo_node ''field_course_start_date'') = Inr (Some 1451865600)"
    by code_simp
  have 4: "optional_datetime (dict_get demo_node ''field_course_end_date'') = Inr (Some 1454284800)"
    by code_simp
  have 5: "(1451865600::int) < 1454284800" by simp
  from weeks_to_complete_counts_weekly_occurrences [OF 1 2 3 4 5] show ?thesis by simp
qed

subsection \<open>C6: the explicit weeks field\<close>

text \<open>
  Claim C6 says that a node in which \<^verbatim>\<open>field_course_required_weeks\<close> is present gets
  that value as its duration, whatever the start and the end. The loader tests the
  field with \<^verbatim>\<open>if weeks_to_complete:\<close>, so a value that is present and false counts as
  absent. Counterexample: the node of the example with the weeks field set to the
  number 0 is processed without an exception and its run gets the duration 5, counted
  from its start and end, not 0.
\<close>

theorem explicit_weeks_field_counterexample:
  "dict_get (dict_set demo_node ''field_course_required_weeks'' (JNum 0))
     ''field_course_required_weeks'' = JNum 0
   \<and> py_int (JNum 0) = Inr 0
   \<and> fst (create_course_run (demo_loader offline) 0
           (dict_set demo_node ''field_course_required_weeks'' (JNum 0)) demo_catalog)
       = Inr (Some 0)
   \<and> run_weeks_to_complete
        (course_runs (snd (create_course_run (demo_loader offline) 0
           (dict_set demo_node ''field_course_required_weeks'' (JNum 0)) demo_catalog)) ! 0)
       = Some 5"
proof -
  let ?N = "dict_set demo_node ''field_course_required_weeks'' (JNum 0)"
  have 1: "dict_get ?N ''field_course_required_weeks'' = JNum 0" by code_simp
  have 2: "py_int (JNum 0) = Inr 0" by (simp add: py_int_def)
  have 3: "fst (create_course_run (demo_loader offline) 0 ?N demo_catalog) = Inr (Some 0)"
    by code_simp
  from create_course_run_updates [OF demo_defaults_zero_weeks demo_matching]
  have "run_weeks_to_complete
        (course_runs (snd (create_course_run (demo_loader offline) 0 ?N demo_catalog)) ! 0)
       = Some 5"
    by (auto simp: run_fields_def demo_node_run_def dest: arg_cong [where f = run_weeks_to_complete])
  with 1 2 3 show ?thesis by simp
qed

text \<open>
  Claim C6 as amended. \<open>create_course_run\<close> has processed a node and returned the
  course run \<open>r\<close>. When the node's weeks field holds a true value (not \<^verbatim>\<open>None\<close>, not
  zero, not empty) and \<^verbatim>\<open>int\<close> of it is \<open>n\<close>, the run's \<open>weeks_to_complete\<close> is
  \<open>n\<close>; nothing is assumed about the start and the end.
\<close>

theorem true_weeks_field_is_the_duration:
  assumes run: "create_course_run self course data st = (Inr (Some r), st')"
    and present: "truthy (dict_get data ''field_course_required_weeks'')"
    and number: "py_int (dict_get data ''field_course_required_weeks'') = Inr n"
  shows "run_weeks_to_complete (course_runs st' ! r) = Some n"
proof -
  from create_course_run_Some [OF run] obtain d where
    d: "course_run_defaults self course data st = Inr d"
    and r: "run_fields (course_runs st' ! r) = run_fields d" by blast
  from course_run_defaults_Inr(1) [OF d] present number
  have w: "run_weeks_to_complete d = Some n"
    by (auto simp: weeks_to_complete_def)
  from r have "run_weeks_to_complete (course_runs st' ! r) = run_weeks_to_complete d"
    by (auto simp: run_fields_def dest: arg_cong [where f = run_weeks_to_complete])
  with w show ?thesis by simp
qed

theorem true_weeks_field_is_the_duration_witness:
  "run_weeks_to_complete
     (course_runs (snd (create_course_run (demo_loader offline) 0
        (dict_set demo_node ''field_course_required_weeks'' (JStr ''12'')) demo_catalog)) ! 0)
   = Some 12"
proof -
  let ?N = "dict_set demo_node ''field_course_required_weeks'' (JStr ''12'')"
  have "fst (create_course_run (demo_loader offline) 0 ?N demo_catalog) = Inr (Some 0)"
    by code_simp
  then have 1: "create_course_run (demo_loader offline) 0 ?N demo_catalog
         = (Inr (Some 0), snd (create_course_run (demo_loader offline) 0 ?N demo_catalog))"
    by (simp add: prod_eq_iff)
  have 2: "truthy (dict_get ?N ''field_course_required_weeks'')" by code_simp
  have 3: "py_int (dict_get ?N ''field_course_required_weeks'') = Inr 12" by code_simp
  from true_weeks_field_is_the_duration [OF 1 2 3] show ?thesis .
qed

subsection \<open>C7: relation sets hold what resolves\<close>

text \<open>
  Claim C7. A relation field of a node (the subjects and the authoring organizations
  of a course, the staff of a course run) is a list of references, dictionaries that
  may carry a \<^verbatim>\<open>uuid\<close>. The setter does not raise, and afterwards the relation holds
  exactly the rows of the catalog whose UUID is referenced, each once: a UUID that no
  row has is left out, and what the relation held before is gone. In the example the
  course had subject 0 and gets subject 1 alone (the other referenced subject does not
  exist), and the run's staff, person 0 before, is empty (the referenced person does
  not exist).
\<close>

theorem relation_set_is_what_resolves:
  "(dict_item data ''field_course_subject'' = Inr (JArr (map JObj refs)) \<longrightarrow>
    course < length (courses st) \<longrightarrow>
      fst (set_subjects course data st) = Inr ()
    \<and> set (course_subjects (courses (snd (set_subjects course data st)) ! course))
        = referenced subject_uuid (subjects st) refs
    \<and> distinct (course_subjects (courses (snd (set_subjects course data st)) ! course)))
 \<and> (dict_item data ''field_course_school_node'' = Inr (JArr (map JObj refs)) \<longrightarrow>
    course < length (courses st) \<longrightarrow>
      fst (set_authoring_organizations course data st) = Inr ()
    \<and> set (course_authoring_organizations
             (courses (snd (set_authoring_organizations course data st)) ! course))
        = referenced organization_uuid (organizations st) refs
    \<and> distinct (course_authoring_organizations
             (courses (snd (set_authoring_organizations course data st)) ! course)))
 \<and> (dict_item data ''field_course_staff'' = Inr (JArr (map JObj refs)) \<longrightarrow>
    course_run < length (course_runs st) \<longrightarrow>
      fst (set_course_run_staff course_run data st) = Inr ()
    \<and> set (run_staff (course_runs (snd (set_course_run_staff course_run data st)) ! course_run))
        = referenced person_uuid (people st) refs
    \<and> distinct (run_staff (course_runs (snd (set_course_run_staff course_run data st))
                  ! course_run)))"
  using set_subjects_refs [of data refs course st]
    set_authoring_organizations_refs [of data refs course st]
    set_course_run_staff_refs [of data refs course_run st]
  by blast

theorem relation_set_is_what_resolves_witness:
  "course_subjects (courses demo_catalog ! 0) = [0]
   \<and> fst (set_subjects 0 demo_node demo_catalog) = Inr ()
   \<and> set (course_subjects (courses (snd (set_subjects 0 demo_node demo_catalog)) ! 0)) = {1}
   \<and> fst (set_authoring_organizations 0 demo_node demo_catalog) = Inr ()
   \<and> set (course_authoring_organizations
           (courses (snd (set_authoring_organizations 0 demo_node demo_catalog)) ! 0)) = {0}
   \<and> run_staff (course_runs demo_catalog ! 0) = [0]
   \<and> fst (set_course_run_staff 0 demo_node demo_catalog) = Inr ()
   \<and> set (run_staff (course_runs (snd (set_course_run_staff 0 demo_node demo_catalog)) ! 0)) = {}"
proof -
  let ?s = "[[(''uuid'', JStr ''51a1c6f2-0d3e-4b7a-9c8d-e2f3a4b5c602'')], [(''uuid'', JStr ''51a1c6f2-0d3e-4b7a-9c8d-e2f3a4b5c609'')]]"
  let ?o = "[[(''uuid'', JStr ''2f6d1e4a-9b3c-4d7e-8f10-a1b2c3d4e5f6'')]]"
  let ?p = "[[(''uuid'', JStr ''a7e3b9d0-5c1f-4a2b-8d6e-f0a1b2c3d409'')]]"
  have s: "dict_item demo_node ''field_course_subject'' = Inr (JArr (map JObj ?s))" by code_simp
  have o: "dict_item demo_node ''field_course_school_node'' = Inr (JArr (map JObj ?o))" by code_simp
  have p: "dict_item demo_node ''field_course_staff'' = Inr (JArr (map JObj ?p))" by code_simp
  have c: "0 < length (courses demo_catalog)" "0 < length (course_runs demo_catalog)"
    by (simp_all add: demo_catalog_def)
  have old: "course_subjects (courses demo_catalog ! 0) = [0]"
    "run_staff (course_runs demo_catalog ! 0) = [0]"
    by (simp_all add: demo_catalog_def)
  have rs: "referenced subject_uuid (subjects demo_catalog) ?s = {1}"
    unfolding referenced_matching by code_simp
  have ro: "referenced organization_uuid (organizations demo_catalog) ?o = {0}"
    unfolding referenced_matching by code_simp
  have rp: "referenced person_uuid (people demo_catalog) ?p = {}"
    unfolding referenced_matching by code_simp
  from relation_set_is_what_resolves [of demo_node ?s 0 demo_catalog 0]
       relation_set_is_what_resolves [of demo_node ?o 0 demo_catalog 0]
       relation_set_is_what_resolves [of demo_node ?p 0 demo_catalog 0]
       s o p c old rs ro rp
  show ?thesis by simp
qed

subsection \<open>C8: several course runs with the node's key\<close>

text \<open>
  Claim C8 says that a node whose key matches several course runs makes
  \<open>create_course_run\<close> log the conflict and return \<^verbatim>\<open>None\<close> without raising. The
  handler around \<^verbatim>\<open>update_or_create\<close> catches \<^verbatim>\<open>TypeError\<close>; the lookup raises
  \<^verbatim>\<open>MultipleObjectsReturned\<close> for several rows. In the catalog with two runs whose keys
  differ in case only, both match the node's key, and \<open>create_course_run\<close> raises
  \<^verbatim>\<open>MultipleObjectsReturned\<close>; the catalog, and with it the log, is as before.
\<close>

theorem duplicate_run_keys_raise:
  "matching (\<lambda>r. key_iexact (run_key r) (run_key demo_node_run)) (course_runs duplicate_runs)
     = [0, 1]
   \<and> create_course_run (demo_loader offline) 0 demo_node duplicate_runs
     = (Inl MultipleObjectsReturned, duplicate_runs)"
proof -
  have d: "course_run_defaults (demo_loader offline) 0 demo_node duplicate_runs = Inr demo_node_run"
    by code_simp
  have m: "matching (\<lambda>r. key_iexact (run_key r) (run_key demo_node_run)) (course_runs duplicate_runs)
           = [0, 1]"
    by code_simp
  from create_course_run_multiple [OF d m] m show ?thesis by simp
qed

subsection \<open>C9: the overview of an XSeries\<close>

text \<open>
  Claim C9 says that the stored overview is the cleaned body without the literal
  prefix \<open>### XSeries Program Overview\<close>, and that a text without that prefix is only
  stripped of white space. The loader calls \<^verbatim>\<open>lstrip\<close> with the heading as argument,
  which drops leading characters as long as they occur in the heading. A cleaned body
  \<open>Some overview\<close>, which has no heading, consists of such characters only and
  becomes the empty text; after the heading, \<open>Series of courses\<close> loses its first
  nine characters. The XSeries node of the example, whose body is \<open>Some overview\<close>, is
  processed without an exception and its program's overview is empty.
\<close>

theorem xseries_overview_strips_a_character_set:
  "xseries_overview ''Some overview'' = []
   \<and> xseries_overview ''### XSeries Program Overview Series of courses'' = ''f courses''
   \<and> fst (xseries_process_node (demo_loader offline) xseries_node xseries_catalog) = Inr (Some 0)
   \<and> program_overview
        (programs (snd (xseries_process_node (demo_loader offline) xseries_node xseries_catalog)) ! 0)
      = []"
  by code_simp

subsection \<open>C10: the hidden flag\<close>

text \<open>
  Claim C10. \<open>get_hidden\<close> is true exactly when the node has the key
  \<^verbatim>\<open>field_couse_is_hidden\<close> (spelled so) with the boolean \<^verbatim>\<open>True\<close> as its value, and the
  course run that \<open>create_course_run\<close> returns for the node carries that flag. The
  examples: \<^verbatim>\<open>True\<close> gives a hidden run; an absent key, \<^verbatim>\<open>False\<close>, a non-empty string,
  the number 1 and the correctly spelled key do not.
\<close>

theorem hidden_only_for_boolean_true:
  "get_hidden data = (map_of data ''field_couse_is_hidden'' = Some (JBool True))
   \<and> (create_course_run self course data st = (Inr (Some r), st') \<longrightarrow>
        run_hidden (course_runs st' ! r)
          = (map_of data ''field_couse_is_hidden'' = Some (JBool True)))"
proof -
  have h: "get_hidden data = (map_of data ''field_couse_is_hidden'' = Some (JBool True))"
    by (simp add: get_hidden_def dict_get_default_def split: option.splits)
  have "run_hidden (course_runs st' ! r) = get_hidden data"
    if run: "create_course_run self course data st = (Inr (Some r), st')"
  proof -
    from create_course_run_Some [OF run] obtain d where
      d: "course_run_defaults self course data st = Inr d"
      and r: "run_fields (course_runs st' ! r) = run_fields d" by blast
    from r have "run_hidden (course_runs st' ! r) = run_hidden d"
      by (auto simp: run_fields_def dest: arg_cong [where f = run_hidden])
    with course_run_defaults_Inr(2) [OF d] show ?thesis by simp
  qed
  with h show ?thesis by simp
qed

theorem hidden_only_for_boolean_true_witness:
  "get_hidden [(''field_couse_is_hidden'', JBool True)]
   \<and> \<not> get_hidden []
   \<and> \<not> get_hidden [(''field_couse_is_hidden'', JBool False)]
   \<and> \<not> get_hidden [(''field_couse_is_hidden'', JStr ''yes'')]
   \<and> \<not> get_hidden [(''field_couse_is_hidden'', JNum 1)]
   \<and> \<not> get_hidden [(''field_course_is_hidden'', JBool True)]
   \<and> \<not> run_hidden (course_runs (snd (create_course_run (demo_loader offline) 0
           (dict_set demo_node ''field_couse_is_hidden'' (JNum 1)) demo_catalog)) ! 0)
   \<and> run_hidden (course_runs (snd (create_course_run (demo_loader offline) 0
           (dict_set demo_node ''field_couse_is_hidden'' (JBool True)) demo_catalog)) ! 0)"
proof -
  let ?N1 = "dict_set demo_node ''field_couse_is_hidden'' (JNum 1)"
  let ?N2 = "dict_set demo_node ''field_couse_is_hidden'' (JBool True)"
  have "fst (create_course_run (demo_loader offline) 0 ?N1 demo_catalog) = Inr (Some 0)"
    by code_simp
  then have 1: "create_course_run (demo_loader offline) 0 ?N1 demo_catalog
         = (Inr (Some 0), snd (create_course_run (demo_loader offline) 0 ?N1 demo_catalog))"
    by (simp add: prod_eq_iff)
  have "fst (create_course_run (demo_loader offline) 0 ?N2 demo_catalog) = Inr (Some 0)"
    by code_simp
  then have 2: "create_course_run (demo_loader offline) 0 ?N2 demo_catalog
         = (Inr (Some 0), snd (create_course_run (demo_loader offline) 0 ?N2 demo_catalog))"
    by (simp add: prod_eq_iff)
  have m1: "map_of ?N1 ''field_couse_is_hidden'' = Some (JNum 1)" by code_simp
  have m2: "map_of ?N2 ''field_couse_is_hidden'' = Some (JBool True)" by code_simp
  from hidden_only_for_boolean_true [of "[(''field_couse_is_hidden'', JBool True)]"]
       hidden_only_for_boolean_true [of "[]"]
       hidden_only_for_boolean_true [of "[(''field_couse_is_hidden'', JBool False)]"]
       hidden_only_for_boolean_true [of "[(''field_couse_is_hidden'', JStr ''yes'')]"]
       hidden_only_for_boolean_true [of "[(''field_couse_is_hidden'', JNum 1)]"]
       hidden_only_for_boolean_true [of "[(''field_course_is_hidden'', JBool True)]"]
       hidden_only_for_boolean_true [of ?N1 "demo_loader offline" 0 demo_catalog 0
         "snd (create_course_run (demo_loader offline) 0 ?N1 demo_catalog)"]
       hidden_only_for_boolean_true [of ?N2 "demo_loader offline" 0 demo_catalog 0
         "snd (create_course_run (demo_loader offline) 0 ?N2 demo_catalog)"]
       1 2 m1 m2
  show ?thesis by simp
qed

end
